theory Spec2Isabelle
  imports Main "HOL-Library.Multiset"
begin

section \<open>Data model\<close>

text \<open>
  The chat store of \<^verbatim>\<open>src/stores/useChatStore.ts\<close> and the SQL functions of
  \<^verbatim>\<open>src/supabase/migrations/20250311183803_holy_desert.sql\<close>.

  Identifiers are the uuid strings of the tables. A timestamp stands for the number
  \<^verbatim>\<open>new Date(x).getTime()\<close> of the column's value. Display-only columns (profiles joined as
  \<^verbatim>\<open>sender\<close> and \<^verbatim>\<open>other_user\<close>, avatar, description, created_at and updated_at of a
  conversation) are left out; row-level-security policies are not modelled.
\<close>

type_synonym uuid = string
type_synonym timestamp = int

datatype chat_type = direct | group

text \<open>Interface \<^verbatim>\<open>Message\<close>, also the row type of table \<^verbatim>\<open>chat_messages\<close>.\<close>

record Message =
  m_id :: uuid
  m_chat_id :: "uuid option"
  m_group_id :: "uuid option"
  m_sender_id :: uuid
  m_content :: string
  m_created_at :: timestamp
  m_is_read :: bool

text \<open>
  Interface \<^verbatim>\<open>Chat\<close>. The same record is the row type of the tables \<^verbatim>\<open>chats\<close> and
  \<^verbatim>\<open>chat_groups\<close>: a row as the backend returns it carries no \<^verbatim>\<open>type\<close> property
  (\<open>c_type = None\<close>); \<^verbatim>\<open>fetchChats\<close> adds it.
\<close>

record Chat =
  c_id :: uuid
  c_type :: "chat_type option"
  c_name :: "string option"
  c_user_id :: "uuid option"
  c_doctor_id :: "uuid option"
  c_created_by :: "uuid option"
  c_is_archived :: bool
  c_is_muted :: bool
  c_last_message_at :: timestamp
  c_last_message :: "string option"
  c_unread_count :: int
  c_members :: "uuid list"

text \<open>
  Interface \<^verbatim>\<open>ChatState\<close>. A subscription handle is the number of the realtime channel
  whose \<^verbatim>\<open>unsubscribe\<close> it calls.
\<close>

record ChatState =
  chats :: "Chat list"
  messages :: "Message list"
  currentChat :: "Chat option"
  isLoading :: bool
  error :: "string option"
  subscriptions :: "nat list"

text \<open>
  The backend the store talks to: the session's user (\<^verbatim>\<open>supabase.auth.getUser()\<close>), the
  tables, and the realtime channels that are subscribed, each with the chat id of its
  filter \<^verbatim>\<open>chat_id=eq.${chatId}\<close>. While \<open>outage\<close> is set, every table request and rpc is
  answered with that error and changes nothing.
\<close>

record backend =
  auth_user :: "uuid option"
  outage :: "string option"
  tbl_chats :: "Chat list"
  tbl_chat_groups :: "Chat list"
  tbl_chat_group_members :: "(uuid \<times> uuid \<times> string) list"
  tbl_chat_messages :: "Message list"
  channels :: "(nat \<times> uuid) list"
  next_channel :: nat

text \<open>
  A row of the embedded resource \<^verbatim>\<open>messages:chat_messages(content, created_at, is_read)\<close>
  of the directory query: only the selected columns are present. Reading another property
  of such a row (\<^verbatim>\<open>m.sender_id\<close>) gives \<^verbatim>\<open>undefined\<close>, which is \<open>None\<close> here.
\<close>

record embedded_message =
  em_content :: string
  em_created_at :: timestamp
  em_is_read :: bool
  em_sender_id :: "uuid option"

section \<open>Backend: SQL functions, constraints and queries\<close>

text \<open>Trigger function \<^verbatim>\<open>update_chat_on_message\<close>, run after each insert on chat_messages.\<close>

definition update_chat_on_message :: "Message \<Rightarrow> backend \<Rightarrow> backend" where
  "update_chat_on_message new b =
     (case m_chat_id new of
        Some c \<Rightarrow>
          b\<lparr>tbl_chats :=
              map (\<lambda>r. if c_id r = c
                        then r\<lparr>c_last_message_at := m_created_at new,
                               c_unread_count := c_unread_count r + 1\<rparr>
                        else r) (tbl_chats b)\<rparr>
      | None \<Rightarrow>
          (case m_group_id new of
             Some g \<Rightarrow>
               b\<lparr>tbl_chat_groups :=
                   map (\<lambda>r. if c_id r = g
                             then r\<lparr>c_last_message_at := m_created_at new,
                                    c_unread_count := c_unread_count r + 1\<rparr>
                             else r) (tbl_chat_groups b)\<rparr>
           | None \<Rightarrow> b))"

text \<open>Function \<^verbatim>\<open>mark_messages_as_read(p_chat_id uuid, p_group_id uuid)\<close>.\<close>

definition mark_messages_as_read :: "uuid option \<Rightarrow> uuid option \<Rightarrow> backend \<Rightarrow> backend" where
  "mark_messages_as_read p_chat_id p_group_id b =
     (case p_chat_id of
        Some c \<Rightarrow>
          b\<lparr>tbl_chat_messages :=
              map (\<lambda>m. if m_chat_id m = Some c \<and> m_is_read m = False
                        then m\<lparr>m_is_read := True\<rparr> else m) (tbl_chat_messages b),
            tbl_chats :=
              map (\<lambda>r. if c_id r = c then r\<lparr>c_unread_count := 0\<rparr> else r) (tbl_chats b)\<rparr>
      | None \<Rightarrow>
          (case p_group_id of
             Some g \<Rightarrow>
               b\<lparr>tbl_chat_messages :=
                   map (\<lambda>m. if m_group_id m = Some g \<and> m_is_read m = False
                             then m\<lparr>m_is_read := True\<rparr> else m) (tbl_chat_messages b),
                 tbl_chat_groups :=
                   map (\<lambda>r. if c_id r = g then r\<lparr>c_unread_count := 0\<rparr> else r)
                     (tbl_chat_groups b)\<rparr>
           | None \<Rightarrow> b))"

text \<open>\<^verbatim>\<open>supabase.rpc('mark_messages_as_read', ...)\<close>; the store ignores its error.\<close>

definition rpc_mark_messages_as_read :: "uuid option \<Rightarrow> uuid option \<Rightarrow> backend \<Rightarrow> backend" where
  "rpc_mark_messages_as_read p_chat_id p_group_id b =
     (case outage b of
        Some e \<Rightarrow> b
      | None \<Rightarrow> mark_messages_as_read p_chat_id p_group_id b)"

text \<open>
  Insert into chat_messages: primary key on id, foreign keys chat_id and group_id, then
  the trigger.
\<close>

definition insert_chat_message :: "Message \<Rightarrow> backend \<Rightarrow> string + backend" where
  "insert_chat_message new b =
     (case outage b of
        Some e \<Rightarrow> Inl e
      | None \<Rightarrow>
          if m_id new \<in> set (map m_id (tbl_chat_messages b))
          then Inl ''duplicate key value violates unique constraint''
          else if (case m_chat_id new of
                     Some c \<Rightarrow> c \<notin> set (map c_id (tbl_chats b)) | None \<Rightarrow> False)
          then Inl ''insert or update violates foreign key constraint''
          else if (case m_group_id new of
                     Some g \<Rightarrow> g \<notin> set (map c_id (tbl_chat_groups b)) | None \<Rightarrow> False)
          then Inl ''insert or update violates foreign key constraint''
          else Inr (update_chat_on_message new
                      (b\<lparr>tbl_chat_messages := tbl_chat_messages b @ [new]\<rparr>)))"

text \<open>
  Insert into chats: primary key on id and \<^verbatim>\<open>UNIQUE(user_id, doctor_id)\<close>; the other
  columns take their defaults.
\<close>

definition new_chat_row :: "uuid \<Rightarrow> timestamp \<Rightarrow> uuid \<Rightarrow> uuid \<Rightarrow> Chat" where
  "new_chat_row new_id now uid doctorId =
     \<lparr>c_id = new_id, c_type = None, c_name = None, c_user_id = Some uid,
      c_doctor_id = Some doctorId, c_created_by = None, c_is_archived = False,
      c_is_muted = False, c_last_message_at = now, c_last_message = None,
      c_unread_count = 0, c_members = []\<rparr>"

definition insert_chat :: "Chat \<Rightarrow> backend \<Rightarrow> string + backend" where
  "insert_chat row b =
     (case outage b of
        Some e \<Rightarrow> Inl e
      | None \<Rightarrow>
          if c_id row \<in> set (map c_id (tbl_chats b))
          then Inl ''duplicate key value violates unique constraint''
          else if (c_user_id row, c_doctor_id row)
                    \<in> set (map (\<lambda>r. (c_user_id r, c_doctor_id r)) (tbl_chats b))
          then Inl ''duplicate key value violates unique constraint''
          else Inr (b\<lparr>tbl_chats := tbl_chats b @ [row]\<rparr>))"

text \<open>Insert into chat_groups (primary key on id) and into chat_group_members.\<close>

definition new_group_row :: "uuid \<Rightarrow> timestamp \<Rightarrow> string \<Rightarrow> uuid \<Rightarrow> Chat" where
  "new_group_row new_id now name uid =
     \<lparr>c_id = new_id, c_type = None, c_name = Some name, c_user_id = None,
      c_doctor_id = None, c_created_by = Some uid, c_is_archived = False,
      c_is_muted = False, c_last_message_at = now, c_last_message = None,
      c_unread_count = 0, c_members = []\<rparr>"

definition insert_chat_group :: "Chat \<Rightarrow> backend \<Rightarrow> string + backend" where
  "insert_chat_group row b =
     (case outage b of
        Some e \<Rightarrow> Inl e
      | None \<Rightarrow>
          if c_id row \<in> set (map c_id (tbl_chat_groups b))
          then Inl ''duplicate key value violates unique constraint''
          else Inr (b\<lparr>tbl_chat_groups := tbl_chat_groups b @ [row]\<rparr>))"

definition insert_chat_group_members ::
  "(uuid \<times> uuid \<times> string) list \<Rightarrow> backend \<Rightarrow> string + backend" where
  "insert_chat_group_members rows b =
     (case outage b of
        Some e \<Rightarrow> Inl e
      | None \<Rightarrow>
          if \<not> distinct (map (\<lambda>(g, u, r). (g, u)) (tbl_chat_group_members b @ rows))
          then Inl ''duplicate key value violates unique constraint''
          else Inr (b\<lparr>tbl_chat_group_members := tbl_chat_group_members b @ rows\<rparr>))"

text \<open>\<^verbatim>\<open>.from('chats').update(...).eq('id', chatId)\<close> and \<^verbatim>\<open>.delete().eq('id', chatId)\<close>
  (messages go with their chat: \<^verbatim>\<open>ON DELETE CASCADE\<close>).\<close>

definition update_chats :: "(Chat \<Rightarrow> Chat) \<Rightarrow> uuid \<Rightarrow> backend \<Rightarrow> string option \<times> backend" where
  "update_chats f chatId b =
     (case outage b of
        Some e \<Rightarrow> (Some e, b)
      | None \<Rightarrow>
          (None, b\<lparr>tbl_chats := map (\<lambda>r. if c_id r = chatId then f r else r) (tbl_chats b)\<rparr>))"

definition delete_chats :: "uuid \<Rightarrow> backend \<Rightarrow> string option \<times> backend" where
  "delete_chats chatId b =
     (case outage b of
        Some e \<Rightarrow> (Some e, b)
      | None \<Rightarrow>
          (None, b\<lparr>tbl_chats := filter (\<lambda>r. c_id r \<noteq> chatId) (tbl_chats b),
                   tbl_chat_messages :=
                     filter (\<lambda>m. m_chat_id m \<noteq> Some chatId) (tbl_chat_messages b)\<rparr>))"

text \<open>
  \<^verbatim>\<open>.order(col, { ascending: false })\<close>. PostgreSQL leaves the order of equal keys open; the
  model keeps them in table order.
\<close>

definition order_desc :: "('a \<Rightarrow> timestamp) \<Rightarrow> 'a list \<Rightarrow> 'a list" where
  "order_desc key rows = sort_key (\<lambda>r. - key r) rows"

text \<open>\<^verbatim>\<open>.single()\<close> and \<^verbatim>\<open>.maybeSingle()\<close>: the row when exactly one matches, else no data
  (for \<^verbatim>\<open>.single()\<close> with error code PGRST116, which \<^verbatim>\<open>startChat\<close> lets pass).\<close>

definition single :: "'a list \<Rightarrow> 'a option" where
  "single rows = (case rows of [r] \<Rightarrow> Some r | _ \<Rightarrow> None)"

definition embed :: "Message \<Rightarrow> embedded_message" where
  "embed m = \<lparr>em_content = m_content m, em_created_at = m_created_at m,
              em_is_read = m_is_read m, em_sender_id = None\<rparr>"

text \<open>The two directory queries of \<^verbatim>\<open>fetchChats\<close>; \<^verbatim>\<open>data\<close> is null on an error and the
  store then continues with \<^verbatim>\<open>[]\<close>.\<close>

definition select_direct_chats :: "uuid \<Rightarrow> backend \<Rightarrow> (Chat \<times> embedded_message list) list" where
  "select_direct_chats uid b =
     (case outage b of
        Some e \<Rightarrow> []
      | None \<Rightarrow>
          map (\<lambda>c. (c, map embed (filter (\<lambda>m. m_chat_id m = Some (c_id c)) (tbl_chat_messages b))))
            (order_desc c_last_message_at
               (filter (\<lambda>c. c_user_id c = Some uid \<or> c_doctor_id c = Some uid) (tbl_chats b))))"

definition members_of :: "uuid \<Rightarrow> backend \<Rightarrow> uuid list" where
  "members_of g b =
     map (\<lambda>(gid, u, r). u) (filter (\<lambda>(gid, u, r). gid = g) (tbl_chat_group_members b))"

definition select_group_chats :: "backend \<Rightarrow> Chat list" where
  "select_group_chats b =
     (case outage b of
        Some e \<Rightarrow> []
      | None \<Rightarrow>
          map (\<lambda>g. g\<lparr>c_members := members_of (c_id g) b\<rparr>)
            (order_desc c_last_message_at (tbl_chat_groups b)))"

section \<open>The store's operations\<close>

subsection \<open>fetchChats\<close>

text \<open>\<^verbatim>\<open>Array.prototype.sort(compareFn)\<close>: a stable sort (ECMAScript 2019), here by insertion:
  an element goes before the first one it does not compare greater than.\<close>

fun insert_cmp :: "('a \<Rightarrow> 'a \<Rightarrow> int) \<Rightarrow> 'a \<Rightarrow> 'a list \<Rightarrow> 'a list" where
  "insert_cmp cmp x [] = [x]"
| "insert_cmp cmp x (y # ys) =
     (if cmp x y \<le> 0 then x # y # ys else y # insert_cmp cmp x ys)"

definition js_sort :: "('a \<Rightarrow> 'a \<Rightarrow> int) \<Rightarrow> 'a list \<Rightarrow> 'a list" where
  "js_sort cmp xs = foldr (insert_cmp cmp) xs []"

text \<open>The comparator \<^verbatim>\<open>(a, b) => new Date(b.last_message_at).getTime() - new Date(a.last_message_at).getTime()\<close>.\<close>

definition by_last_message_at :: "Chat \<Rightarrow> Chat \<Rightarrow> int" where
  "by_last_message_at a b = c_last_message_at b - c_last_message_at a"

definition processedDirectChat :: "uuid \<Rightarrow> Chat \<times> embedded_message list \<Rightarrow> Chat" where
  "processedDirectChat uid =
     (\<lambda>(chat, msgs).
        chat\<lparr>c_type := Some direct,
             c_last_message := (case msgs of [] \<Rightarrow> None | m # _ \<Rightarrow> Some (em_content m)),
             c_unread_count :=
               int (length (filter (\<lambda>m. \<not> em_is_read m \<and> em_sender_id m \<noteq> Some uid) msgs))\<rparr>)"

definition processedGroupChat :: "Chat \<Rightarrow> Chat" where
  "processedGroupChat chat = chat\<lparr>c_type := Some group\<rparr>"

definition combine_chats :: "Chat list \<Rightarrow> Chat list \<Rightarrow> Chat list" where
  "combine_chats processedDirectChats processedGroupChats =
     js_sort by_last_message_at (processedDirectChats @ processedGroupChats)"

definition fetchChats :: "backend \<Rightarrow> ChatState \<Rightarrow> ChatState" where
  "fetchChats b s =
     (case auth_user b of
        None \<Rightarrow> s\<lparr>isLoading := False, error := Some ''Not authenticated''\<rparr>
      | Some uid \<Rightarrow>
          s\<lparr>chats := combine_chats (map (processedDirectChat uid) (select_direct_chats uid b))
                       (map processedGroupChat (select_group_chats b)),
            isLoading := False, error := None\<rparr>)"

subsection \<open>startChat and createGroupChat\<close>

text \<open>
  The lookup of \<^verbatim>\<open>startChat\<close>:
  \<^verbatim>\<open>.or(`user_id.eq.${user.id},doctor_id.eq.${user.id}`)\<close> and
  \<^verbatim>\<open>.eq(user.id === doctorId ? 'user_id' : 'doctor_id', doctorId)\<close>.
\<close>

definition existing_chats :: "uuid \<Rightarrow> uuid \<Rightarrow> backend \<Rightarrow> Chat list" where
  "existing_chats uid doctorId b =
     filter (\<lambda>c. (c_user_id c = Some uid \<or> c_doctor_id c = Some uid) \<and>
                 (if uid = doctorId then c_user_id c = Some doctorId
                  else c_doctor_id c = Some doctorId)) (tbl_chats b)"

text \<open>
  \<open>new_id\<close> and \<open>now\<close> are what \<^verbatim>\<open>gen_random_uuid()\<close> and \<^verbatim>\<open>now()\<close> give the new row.
  The result is \<open>Inl\<close> of the message of the error that is thrown, or \<open>Inr\<close> of the
  returned id.
\<close>

definition startChat ::
  "uuid \<Rightarrow> timestamp \<Rightarrow> uuid \<Rightarrow> backend \<Rightarrow> ChatState \<Rightarrow> (string + uuid) \<times> backend \<times> ChatState" where
  "startChat new_id now doctorId b s =
     (case auth_user b of
        None \<Rightarrow> (Inl ''Not authenticated'', b, s\<lparr>error := Some ''Not authenticated''\<rparr>)
      | Some uid \<Rightarrow>
          (case outage b of
             Some e \<Rightarrow> (Inl e, b, s\<lparr>error := Some e\<rparr>)
           | None \<Rightarrow>
               (case single (existing_chats uid doctorId b) of
                  Some existingChat \<Rightarrow> (Inr (c_id existingChat), b, s)
                | None \<Rightarrow>
                    (case insert_chat (new_chat_row new_id now uid doctorId) b of
                       Inl e \<Rightarrow> (Inl e, b, s\<lparr>error := Some e\<rparr>)
                     | Inr b' \<Rightarrow> (Inr new_id, b', fetchChats b' s)))))"

text \<open>\<^verbatim>\<open>[...new Set(xs)]\<close>: the first occurrence of each element, in order.\<close>

definition js_set :: "'a list \<Rightarrow> 'a list" where
  "js_set xs = rev (remdups (rev xs))"

definition createGroupChat ::
  "uuid \<Rightarrow> timestamp \<Rightarrow> string \<Rightarrow> uuid list \<Rightarrow> backend \<Rightarrow> ChatState
     \<Rightarrow> (string + uuid) \<times> backend \<times> ChatState" where
  "createGroupChat new_id now name memberIds b s =
     (case auth_user b of
        None \<Rightarrow> (Inl ''Not authenticated'', b, s\<lparr>error := Some ''Not authenticated''\<rparr>)
      | Some uid \<Rightarrow>
          (case insert_chat_group (new_group_row new_id now name uid) b of
             Inl e \<Rightarrow> (Inl e, b, s\<lparr>error := Some e\<rparr>)
           | Inr b1 \<Rightarrow>
               (case insert_chat_group_members
                       (map (\<lambda>memberId. (new_id, memberId,
                                          if memberId = uid then ''admin'' else ''member''))
                          (js_set (memberIds @ [uid]))) b1 of
                  Inl e \<Rightarrow> (Inl e, b1, s\<lparr>error := Some e\<rparr>)
                | Inr b2 \<Rightarrow> (Inr new_id, b2, fetchChats b2 s))))"

subsection \<open>archiveChat, unarchiveChat, muteChat, unmuteChat, deleteChat\<close>

definition archiveChat :: "uuid \<Rightarrow> backend \<Rightarrow> ChatState \<Rightarrow> backend \<times> ChatState" where
  "archiveChat chatId b s =
     (case update_chats (\<lambda>r. r\<lparr>c_is_archived := True\<rparr>) chatId b of
        (Some e, b') \<Rightarrow> (b', s\<lparr>error := Some e\<rparr>)
      | (None, b') \<Rightarrow>
          (b', s\<lparr>chats := map (\<lambda>chat. if c_id chat = chatId
                                       then chat\<lparr>c_is_archived := True\<rparr> else chat) (chats s)\<rparr>))"

definition unarchiveChat :: "uuid \<Rightarrow> backend \<Rightarrow> ChatState \<Rightarrow> backend \<times> ChatState" where
  "unarchiveChat chatId b s =
     (case update_chats (\<lambda>r. r\<lparr>c_is_archived := False\<rparr>) chatId b of
        (Some e, b') \<Rightarrow> (b', s\<lparr>error := Some e\<rparr>)
      | (None, b') \<Rightarrow>
          (b', s\<lparr>chats := map (\<lambda>chat. if c_id chat = chatId
                                       then chat\<lparr>c_is_archived := False\<rparr> else chat) (chats s)\<rparr>))"

definition muteChat :: "uuid \<Rightarrow> backend \<Rightarrow> ChatState \<Rightarrow> backend \<times> ChatState" where
  "muteChat chatId b s =
     (case update_chats (\<lambda>r. r\<lparr>c_is_muted := True\<rparr>) chatId b of
        (Some e, b') \<Rightarrow> (b', s\<lparr>error := Some e\<rparr>)
      | (None, b') \<Rightarrow>
          (b', s\<lparr>chats := map (\<lambda>chat. if c_id chat = chatId
                                       then chat\<lparr>c_is_muted := True\<rparr> else chat) (chats s)\<rparr>))"

definition unmuteChat :: "uuid \<Rightarrow> backend \<Rightarrow> ChatState \<Rightarrow> backend \<times> ChatState" where
  "unmuteChat chatId b s =
     (case update_chats (\<lambda>r. r\<lparr>c_is_muted := False\<rparr>) chatId b of
        (Some e, b') \<Rightarrow> (b', s\<lparr>error := Some e\<rparr>)
      | (None, b') \<Rightarrow>
          (b', s\<lparr>chats := map (\<lambda>chat. if c_id chat = chatId
                                       then chat\<lparr>c_is_muted := False\<rparr> else chat) (chats s)\<rparr>))"

definition deleteChat :: "uuid \<Rightarrow> backend \<Rightarrow> ChatState \<Rightarrow> backend \<times> ChatState" where
  "deleteChat chatId b s =
     (case delete_chats chatId b of
        (Some e, b') \<Rightarrow> (b', s\<lparr>error := Some e\<rparr>)
      | (None, b') \<Rightarrow> (b', s\<lparr>chats := filter (\<lambda>chat. c_id chat \<noteq> chatId) (chats s)\<rparr>))"

subsection \<open>fetchMessages\<close>

text \<open>The two lookups by id (\<^verbatim>\<open>.eq('id', chatId).maybeSingle()\<close>) and the message query
  \<^verbatim>\<open>.or(`chat_id.eq.${chatId},group_id.eq.${chatId}`).order('created_at', { ascending: false })\<close>.\<close>

definition select_chat_by_id :: "uuid \<Rightarrow> backend \<Rightarrow> Chat option" where
  "select_chat_by_id chatId b =
     (case outage b of
        Some e \<Rightarrow> None
      | None \<Rightarrow> single (filter (\<lambda>c. c_id c = chatId) (tbl_chats b)))"

definition select_group_by_id :: "uuid \<Rightarrow> backend \<Rightarrow> Chat option" where
  "select_group_by_id chatId b =
     (case outage b of
        Some e \<Rightarrow> None
      | None \<Rightarrow>
          map_option (\<lambda>g. g\<lparr>c_members := members_of (c_id g) b\<rparr>)
            (single (filter (\<lambda>c. c_id c = chatId) (tbl_chat_groups b))))"

definition select_messages :: "uuid \<Rightarrow> backend \<Rightarrow> string + Message list" where
  "select_messages chatId b =
     (case outage b of
        Some e \<Rightarrow> Inl e
      | None \<Rightarrow>
          Inr (order_desc m_created_at
                 (filter (\<lambda>m. m_chat_id m = Some chatId \<or> m_group_id m = Some chatId)
                    (tbl_chat_messages b))))"

definition fetchMessages :: "uuid \<Rightarrow> backend \<Rightarrow> ChatState \<Rightarrow> backend \<times> ChatState" where
  "fetchMessages chatId b s =
     (case auth_user b of
        None \<Rightarrow> (b, s\<lparr>isLoading := False, error := Some ''Not authenticated''\<rparr>)
      | Some uid \<Rightarrow>
          (let directChat = select_chat_by_id chatId b;
               groupChat = select_group_by_id chatId b
           in case (case directChat of Some c \<Rightarrow> Some c | None \<Rightarrow> groupChat) of
                None \<Rightarrow> (b, s\<lparr>isLoading := False, error := Some ''Chat not found''\<rparr>)
              | Some chat \<Rightarrow>
                  (case select_messages chatId b of
                     Inl e \<Rightarrow> (b, s\<lparr>currentChat := Some chat, isLoading := False,
                                    error := Some e\<rparr>)
                   | Inr msgs \<Rightarrow>
                       (let b' = rpc_mark_messages_as_read
                                   (if directChat \<noteq> None then Some chatId else None)
                                   (if groupChat \<noteq> None then Some chatId else None) b
                        in (b', (fetchChats b' (s\<lparr>currentChat := Some chat, messages := msgs,
                                                   error := None\<rparr>))\<lparr>isLoading := False\<rparr>)))))"

subsection \<open>sendMessage\<close>

definition new_message :: "uuid \<Rightarrow> timestamp \<Rightarrow> Chat \<Rightarrow> uuid \<Rightarrow> string \<Rightarrow> Message" where
  "new_message new_id now currentChat' uid content' =
     \<lparr>m_id = new_id,
      m_chat_id = (if c_type currentChat' = Some direct then Some (c_id currentChat') else None),
      m_group_id = (if c_type currentChat' = Some group then Some (c_id currentChat') else None),
      m_sender_id = uid, m_content = content', m_created_at = now, m_is_read = False\<rparr>"

definition sendMessage ::
  "uuid \<Rightarrow> timestamp \<Rightarrow> string \<Rightarrow> backend \<Rightarrow> ChatState \<Rightarrow> backend \<times> ChatState" where
  "sendMessage new_id now content' b s =
     (case currentChat s of
        None \<Rightarrow> (b, s\<lparr>error := Some ''No active chat''\<rparr>)
      | Some currentChat' \<Rightarrow>
          (case auth_user b of
             None \<Rightarrow> (b, s\<lparr>error := Some ''Not authenticated''\<rparr>)
           | Some uid \<Rightarrow>
               (let data = new_message new_id now currentChat' uid content'
                in case insert_chat_message data b of
                     Inl e \<Rightarrow> (b, s\<lparr>error := Some e\<rparr>)
                   | Inr b' \<Rightarrow> (b', fetchChats b' (s\<lparr>messages := data # messages s\<rparr>)))))"

subsection \<open>subscribeToMessages, its insert handler, cleanup\<close>

definition unsubscribe :: "nat \<Rightarrow> backend \<Rightarrow> backend" where
  "unsubscribe h b = b\<lparr>channels := filter (\<lambda>(h', chatId). h' \<noteq> h) (channels b)\<rparr>"

definition subscribeToMessages :: "uuid \<Rightarrow> backend \<Rightarrow> ChatState \<Rightarrow> backend \<times> ChatState" where
  "subscribeToMessages chatId b s =
     (let b1 = fold unsubscribe (subscriptions s) b;
          h = next_channel b1
      in (b1\<lparr>channels := channels b1 @ [(h, chatId)], next_channel := Suc h\<rparr>,
          s\<lparr>subscriptions := [h]\<rparr>))"

text \<open>The callback given to \<^verbatim>\<open>.on('postgres_changes', ...)\<close> by \<^verbatim>\<open>subscribeToMessages(chatId)\<close>,
  run on the row of an insert event. Its rpc passes \<^verbatim>\<open>p_chat_id\<close> only.\<close>

definition on_insert :: "uuid \<Rightarrow> Message \<Rightarrow> backend \<Rightarrow> ChatState \<Rightarrow> backend \<times> ChatState" where
  "on_insert chatId message b s =
     (let s1 = s\<lparr>messages := message # messages s\<rparr>;
          b1 = (case auth_user b of
                  Some uid \<Rightarrow>
                    if m_sender_id message \<noteq> uid
                    then rpc_mark_messages_as_read (Some chatId) None b else b
                | None \<Rightarrow> b)
      in (b1, fetchChats b1 s1))"

text \<open>The realtime feed: the event of an inserted row reaches the callback of every
  subscribed channel whose filter \<^verbatim>\<open>chat_id=eq.${chatId}\<close> the row satisfies.\<close>

definition deliver_insert :: "Message \<Rightarrow> backend \<Rightarrow> ChatState \<Rightarrow> backend \<times> ChatState" where
  "deliver_insert message b s =
     fold (\<lambda>(h, chatId) (b', s').
             if m_chat_id message = Some chatId then on_insert chatId message b' s'
             else (b', s'))
       (channels b) (b, s)"

definition cleanup :: "backend \<Rightarrow> ChatState \<Rightarrow> backend \<times> ChatState" where
  "cleanup b s =
     (fold unsubscribe (subscriptions s) b,
      s\<lparr>subscriptions := [], currentChat := None, messages := []\<rparr>)"

section \<open>Reachable states, derived quantities, example states\<close>

text \<open>The store as \<^verbatim>\<open>create\<close> builds it.\<close>

definition initial_state :: ChatState where
  "initial_state =
     \<lparr>chats = [], messages = [], currentChat = None, isLoading = False, error = None,
      subscriptions = []\<rparr>"

text \<open>
  The states a client passes through: it starts with the initial store and no channel of
  its own and then runs the store's operations in any order, with any arguments; the
  feed may hand it the event of any row; the screens may dismiss the error; and anything
  may happen to the rest of the backend (other users, sign-in and sign-out, outages) as
  long as this client's channels are left alone.
\<close>

inductive reachable :: "backend \<Rightarrow> ChatState \<Rightarrow> bool" where
  r_init: "channels b = [] \<Longrightarrow> reachable b initial_state"
| r_backend: "reachable b s \<Longrightarrow> channels b' = channels b \<Longrightarrow> reachable b' s"
| r_dismiss: "reachable b s \<Longrightarrow> reachable b (s\<lparr>error := None\<rparr>)"
| r_fetchChats: "reachable b s \<Longrightarrow> reachable b (fetchChats b s)"
| r_startChat:
    "reachable b s \<Longrightarrow> startChat new_id now doctorId b s = (res, b', s') \<Longrightarrow> reachable b' s'"
| r_createGroupChat:
    "reachable b s \<Longrightarrow> createGroupChat new_id now name memberIds b s = (res, b', s')
       \<Longrightarrow> reachable b' s'"
| r_archiveChat: "reachable b s \<Longrightarrow> archiveChat chatId b s = (b', s') \<Longrightarrow> reachable b' s'"
| r_unarchiveChat: "reachable b s \<Longrightarrow> unarchiveChat chatId b s = (b', s') \<Longrightarrow> reachable b' s'"
| r_muteChat: "reachable b s \<Longrightarrow> muteChat chatId b s = (b', s') \<Longrightarrow> reachable b' s'"
| r_unmuteChat: "reachable b s \<Longrightarrow> unmuteChat chatId b s = (b', s') \<Longrightarrow> reachable b' s'"
| r_deleteChat: "reachable b s \<Longrightarrow> deleteChat chatId b s = (b', s') \<Longrightarrow> reachable b' s'"
| r_fetchMessages: "reachable b s \<Longrightarrow> fetchMessages chatId b s = (b', s') \<Longrightarrow> reachable b' s'"
| r_sendMessage:
    "reachable b s \<Longrightarrow> sendMessage new_id now content' b s = (b', s') \<Longrightarrow> reachable b' s'"
| r_subscribeToMessages:
    "reachable b s \<Longrightarrow> subscribeToMessages chatId b s = (b', s') \<Longrightarrow> reachable b' s'"
| r_deliver_insert:
    "reachable b s \<Longrightarrow> deliver_insert message b s = (b', s') \<Longrightarrow> reachable b' s'"
| r_cleanup: "reachable b s \<Longrightarrow> cleanup b s = (b', s') \<Longrightarrow> reachable b' s'"

text \<open>The number of rows of a timeline that carry a given message id.\<close>

definition copies :: "uuid \<Rightarrow> Message list \<Rightarrow> nat" where
  "copies i ms = length (filter (\<lambda>m. m_id m = i) ms)"

text \<open>
  The messages the group branch of the insert trigger has counted for group \<open>g\<close> and that
  are still unread, and the backend states in which every group's stored counter agrees
  with that number.
\<close>

definition group_unread :: "uuid \<Rightarrow> backend \<Rightarrow> nat" where
  "group_unread g b =
     length (filter (\<lambda>m. m_chat_id m = None \<and> m_group_id m = Some g \<and> \<not> m_is_read m)
               (tbl_chat_messages b))"

definition group_counters_in_step :: "backend \<Rightarrow> bool" where
  "group_counters_in_step b \<longleftrightarrow>
     (\<forall>r \<in> set (tbl_chat_groups b). c_unread_count r = int (group_unread (c_id r) b))"

text \<open>
  An example backend, seen by user u1: a direct chat c1 between u1 and u2 with one unread
  message from each, a direct chat c2 that u3 started with u1, and a group g1 whose only
  message u1 sent. The counters are what the insert trigger has left.
\<close>

definition ex_m1 :: Message where
  "ex_m1 = \<lparr>m_id = ''m1'', m_chat_id = Some ''c1'', m_group_id = None, m_sender_id = ''u1'',
            m_content = ''hello'', m_created_at = 11, m_is_read = False\<rparr>"

definition ex_m2 :: Message where
  "ex_m2 = \<lparr>m_id = ''m2'', m_chat_id = Some ''c1'', m_group_id = None, m_sender_id = ''u2'',
            m_content = ''hi'', m_created_at = 12, m_is_read = False\<rparr>"

definition ex_m3 :: Message where
  "ex_m3 = \<lparr>m_id = ''m3'', m_chat_id = None, m_group_id = Some ''g1'', m_sender_id = ''u1'',
            m_content = ''rounds at 8'', m_created_at = 12, m_is_read = False\<rparr>"

definition ex_backend :: backend where
  "ex_backend =
     \<lparr>auth_user = Some ''u1'', outage = None,
      tbl_chats =
        [(new_chat_row ''c1'' 10 ''u1'' ''u2'')\<lparr>c_last_message_at := 12, c_unread_count := 2\<rparr>,
         new_chat_row ''c2'' 10 ''u3'' ''u1''],
      tbl_chat_groups =
        [(new_group_row ''g1'' 10 ''Ward'' ''u1'')\<lparr>c_last_message_at := 12, c_unread_count := 1\<rparr>],
      tbl_chat_group_members = [(''g1'', ''u1'', ''admin''), (''g1'', ''u2'', ''member'')],
      tbl_chat_messages = [ex_m1, ex_m2, ex_m3],
      channels = [], next_channel = 0\<rparr>"

text \<open>The open conversation c1 as an entry of the directory (with its \<^verbatim>\<open>type\<close>), and a row
  of conversation c2 that u3 sent.\<close>

definition ex_open_chat :: Chat where
  "ex_open_chat = (new_chat_row ''c1'' 10 ''u1'' ''u2'')\<lparr>c_type := Some direct\<rparr>"

definition ex_other_row :: Message where
  "ex_other_row = \<lparr>m_id = ''m4'', m_chat_id = Some ''c2'', m_group_id = None,
                   m_sender_id = ''u3'', m_content = ''call me'', m_created_at = 13,
                   m_is_read = False\<rparr>"


text \<open>The store holds the handles of exactly the subscribed channels, and at most one.\<close>

definition subs_inv :: "backend \<Rightarrow> ChatState \<Rightarrow> bool" where
  "subs_inv b s \<longleftrightarrow> map fst (channels b) = subscriptions s \<and> length (subscriptions s) \<le> 1"

text \<open>
  The first definition of \<^verbatim>\<open>mark_messages_as_read(p_chat_id uuid)\<close>, in the migration that
  creates the chat tables: it marks only the messages whose sender is not the caller
  (\<^verbatim>\<open>AND sender_id != auth.uid()\<close>; with nobody signed in the comparison is null and no row
  is updated). The later migrations replace it by the function above.
\<close>

definition mark_messages_as_read_first :: "uuid option \<Rightarrow> backend \<Rightarrow> backend" where
  "mark_messages_as_read_first p_chat_id b =
     (case p_chat_id of
        None \<Rightarrow> b
      | Some c \<Rightarrow>
          (case auth_user b of
             None \<Rightarrow> b
           | Some uid \<Rightarrow>
               b\<lparr>tbl_chat_messages :=
                   map (\<lambda>m. if m_chat_id m = Some c \<and> m_sender_id m \<noteq> uid \<and> m_is_read m = False
                             then m\<lparr>m_is_read := True\<rparr> else m) (tbl_chat_messages b)\<rparr>))"

text \<open>
  The tables chats and chat_groups have no \<^verbatim>\<open>type\<close> column: in a backend as the
  migrations build it, no conversation row carries a type. A store whose open
  conversation, if any, carries none either.
\<close>

definition rows_untyped :: "backend \<Rightarrow> bool" where
  "rows_untyped b \<longleftrightarrow>
     (\<forall>r \<in> set (tbl_chats b). c_type r = None)
     \<and> (\<forall>r \<in> set (tbl_chat_groups b). c_type r = None)"


text \<open>
  The states a client passes through on such a backend: the runs of \<open>reachable\<close>, where
  the backend starts with untyped rows and whatever else happens to it leaves the rows
  untyped.
\<close>

inductive reachable_untyped :: "backend \<Rightarrow> ChatState \<Rightarrow> bool" where
  u_init: "channels b = [] \<Longrightarrow> rows_untyped b \<Longrightarrow> reachable_untyped b initial_state"
| u_backend:
    "reachable_untyped b s \<Longrightarrow> channels b' = channels b \<Longrightarrow> rows_untyped b'
       \<Longrightarrow> reachable_untyped b' s"
| u_dismiss: "reachable_untyped b s \<Longrightarrow> reachable_untyped b (s\<lparr>error := None\<rparr>)"
| u_fetchChats: "reachable_untyped b s \<Longrightarrow> reachable_untyped b (fetchChats b s)"
| u_startChat:
    "reachable_untyped b s \<Longrightarrow> startChat new_id now doctorId b s = (res, b', s')
       \<Longrightarrow> reachable_untyped b' s'"
| u_createGroupChat:
    "reachable_untyped b s \<Longrightarrow> createGroupChat new_id now name memberIds b s = (res, b', s')
       \<Longrightarrow> reachable_untyped b' s'"
| u_archiveChat:
    "reachable_untyped b s \<Longrightarrow> archiveChat chatId b s = (b', s') \<Longrightarrow> reachable_untyped b' s'"
| u_unarchiveChat:
    "reachable_untyped b s \<Longrightarrow> unarchiveChat chatId b s = (b', s') \<Longrightarrow> reachable_untyped b' s'"
| u_muteChat:
    "reachable_untyped b s \<Longrightarrow> muteChat chatId b s = (b', s') \<Longrightarrow> reachable_untyped b' s'"
| u_unmuteChat:
    "reachable_untyped b s \<Longrightarrow> unmuteChat chatId b s = (b', s') \<Longrightarrow> reachable_untyped b' s'"
| u_deleteChat:
    "reachable_untyped b s \<Longrightarrow> deleteChat chatId b s = (b', s') \<Longrightarrow> reachable_untyped b' s'"
| u_fetchMessages:
    "reachable_untyped b s \<Longrightarrow> fetchMessages chatId b s = (b', s') \<Longrightarrow> reachable_untyped b' s'"
| u_sendMessage:
    "reachable_untyped b s \<Longrightarrow> sendMessage new_id now content' b s = (b', s')
       \<Longrightarrow> reachable_untyped b' s'"
| u_subscribeToMessages:
    "reachable_untyped b s \<Longrightarrow> subscribeToMessages chatId b s = (b', s')
       \<Longrightarrow> reachable_untyped b' s'"
| u_deliver_insert:
    "reachable_untyped b s \<Longrightarrow> deliver_insert message b s = (b', s')
       \<Longrightarrow> reachable_untyped b' s'"
| u_cleanup: "reachable_untyped b s \<Longrightarrow> cleanup b s = (b', s') \<Longrightarrow> reachable_untyped b' s'"


text \<open>Two backends with the same two conversation rows of equal last_message_at, stored
  in opposite order.\<close>

definition ex_tie_backend :: backend where
  "ex_tie_backend =
     ex_backend\<lparr>tbl_chats := [new_chat_row ''c1'' 10 ''u1'' ''u2'', new_chat_row ''c2'' 10 ''u3'' ''u1''],
                tbl_chat_messages := [ex_m3]\<rparr>"

definition ex_tie_backend_swapped :: backend where
  "ex_tie_backend_swapped =
     ex_backend\<lparr>tbl_chats := [new_chat_row ''c2'' 10 ''u3'' ''u1'', new_chat_row ''c1'' 10 ''u1'' ''u2''],
                tbl_chat_messages := [ex_m3]\<rparr>"

section \<open>The directory listing is one sorted sequence\<close>

lemma insert_cmp_insort_key:
  "insert_cmp by_last_message_at x ys = insort_key (\<lambda>c. - c_last_message_at c) x ys"
  by (induction ys) (simp_all add: by_last_message_at_def)

lemma js_sort_sort_key:
  "js_sort by_last_message_at xs = sort_key (\<lambda>c. - c_last_message_at c) xs"
  by (induction xs) (simp_all add: js_sort_def insert_cmp_insort_key)

lemma combine_chats_sorted:
  "sorted_wrt (\<lambda>x y. c_last_message_at y \<le> c_last_message_at x) (combine_chats ds gs)"
proof -
  have "sorted (map (\<lambda>c. - c_last_message_at c) (combine_chats ds gs))"
    by (simp add: combine_chats_def js_sort_sort_key)
  then show ?thesis
    by (simp add: sorted_map)
qed

lemma combine_chats_mset: "mset (combine_chats ds gs) = mset ds + mset gs"
  by (simp add: combine_chats_def js_sort_sort_key)

lemma combine_chats_stable:
  "filter (\<lambda>c. c_last_message_at c = t) (combine_chats ds gs)
     = filter (\<lambda>c. c_last_message_at c = t) (ds @ gs)"
proof -
  have "filter (\<lambda>c. - c_last_message_at c = - t) (combine_chats ds gs)
          = filter (\<lambda>c. - c_last_message_at c = - t) (ds @ gs)"
    unfolding combine_chats_def js_sort_sort_key by (rule sort_key_stable)
  then show ?thesis
    by simp
qed

lemma chats_fetchChats:
  "auth_user b = Some uid \<Longrightarrow>
     chats (fetchChats b s) =
       combine_chats (map (processedDirectChat uid) (select_direct_chats uid b))
         (map processedGroupChat (select_group_chats b))"
  by (simp add: fetchChats_def)

text \<open>
  C5, as the claim states it, fails. The order is not strict: in the listing of the
  example backend c1 and g1 stand side by side with the same timestamp 12. And nothing
  breaks a tie: with two direct chats of equal timestamp, the listing shows them in the
  order in which the table holds them, so the same rows stored the other way round are
  listed the other way round.
\<close>

theorem C5_counterexample:
  "map (\<lambda>c. (c_id c, c_last_message_at c)) (chats (fetchChats ex_backend initial_state))
     = [(''c1'', 12), (''g1'', 12), (''c2'', 10)]
   \<and> \<not> sorted_wrt (\<lambda>x y. c_last_message_at y < c_last_message_at x)
         (chats (fetchChats ex_backend initial_state))
   \<and> set (tbl_chats ex_tie_backend) = set (tbl_chats ex_tie_backend_swapped)
   \<and> ex_tie_backend_swapped = ex_tie_backend\<lparr>tbl_chats := rev (tbl_chats ex_tie_backend)\<rparr>
   \<and> map c_id (chats (fetchChats ex_tie_backend initial_state)) = [''g1'', ''c1'', ''c2'']
   \<and> map c_id (chats (fetchChats ex_tie_backend_swapped initial_state)) = [''g1'', ''c2'', ''c1'']"
proof -
  have "map (\<lambda>c. (c_id c, c_last_message_at c)) (chats (fetchChats ex_backend initial_state))
     = [(''c1'', 12), (''g1'', 12), (''c2'', 10)]"
    by code_simp
  moreover have "\<not> sorted_wrt (\<lambda>x y. c_last_message_at y < c_last_message_at x)
         (chats (fetchChats ex_backend initial_state))"
    by code_simp
  moreover have "set (tbl_chats ex_tie_backend) = set (tbl_chats ex_tie_backend_swapped)"
    by (auto simp: ex_tie_backend_def ex_tie_backend_swapped_def)
  moreover have
    "ex_tie_backend_swapped = ex_tie_backend\<lparr>tbl_chats := rev (tbl_chats ex_tie_backend)\<rparr>"
    by (simp add: ex_tie_backend_def ex_tie_backend_swapped_def)
  moreover have
    "map c_id (chats (fetchChats ex_tie_backend initial_state)) = [''g1'', ''c1'', ''c2'']"
    by code_simp
  moreover have
    "map c_id (chats (fetchChats ex_tie_backend_swapped initial_state)) = [''g1'', ''c2'', ''c1'']"
    by code_simp
  ultimately show ?thesis by blast
qed

text \<open>
  C5 (amended). For a signed-in viewer, the list that fetchChats stores is the direct and
  the group entries together (the same entries, as a multiset), in descending order of
  last_message_at, where equal timestamps may stand side by side. There is no tie-break
  key: entries with the same timestamp stay in the order in which they stand in the
  concatenation of the direct entries, as the backend returned them, and the group
  entries, as the backend returned them.
\<close>

theorem C5_fetchChats_descending_ties_in_fetch_order:
  assumes "auth_user b = Some uid"
  shows "sorted_wrt (\<lambda>x y. c_last_message_at y \<le> c_last_message_at x) (chats (fetchChats b s))
       \<and> mset (chats (fetchChats b s))
           = mset (map (processedDirectChat uid) (select_direct_chats uid b))
             + mset (map processedGroupChat (select_group_chats b))
       \<and> (\<forall>t. filter (\<lambda>c. c_last_message_at c = t) (chats (fetchChats b s))
              = filter (\<lambda>c. c_last_message_at c = t)
                  (map (processedDirectChat uid) (select_direct_chats uid b)
                   @ map processedGroupChat (select_group_chats b)))"
  unfolding chats_fetchChats [OF assms]
  by (simp add: combine_chats_sorted combine_chats_mset combine_chats_stable)

theorem C5_witness:
  "map (\<lambda>c. (c_id c, c_last_message_at c)) (chats (fetchChats ex_backend initial_state))
     = [(''c1'', 12), (''g1'', 12), (''c2'', 10)]
   \<and> sorted_wrt (\<lambda>x y. c_last_message_at y \<le> c_last_message_at x)
       (chats (fetchChats ex_backend initial_state))
   \<and> map c_id (filter (\<lambda>c. c_last_message_at c = 12)
                  (map (processedDirectChat ''u1'') (select_direct_chats ''u1'' ex_backend)
                   @ map processedGroupChat (select_group_chats ex_backend)))
       = [''c1'', ''g1'']"
proof -
  have u: "auth_user ex_backend = Some ''u1''"
    by (simp add: ex_backend_def)
  have "map (\<lambda>c. (c_id c, c_last_message_at c)) (chats (fetchChats ex_backend initial_state))
          = [(''c1'', 12), (''g1'', 12), (''c2'', 10)]"
    by code_simp
  moreover have "map c_id (filter (\<lambda>c. c_last_message_at c = 12)
                  (chats (fetchChats ex_backend initial_state))) = [''c1'', ''g1'']"
    by code_simp
  ultimately show ?thesis
    using C5_fetchChats_descending_ties_in_fetch_order [OF u, of initial_state]
    by metis
qed

section \<open>Marking a conversation as read\<close>

lemma read_again: "m_is_read m \<Longrightarrow> m\<lparr>m_is_read := True\<rparr> = m"
  by simp

lemma mark_chat_messages:
  "tbl_chat_messages (mark_messages_as_read (Some c) p b)
     = map (\<lambda>m. if m_chat_id m = Some c then m\<lparr>m_is_read := True\<rparr> else m)
         (tbl_chat_messages b)"
  by (simp add: mark_messages_as_read_def read_again)

lemma mark_group_messages:
  "tbl_chat_messages (mark_messages_as_read None (Some g) b)
     = map (\<lambda>m. if m_group_id m = Some g then m\<lparr>m_is_read := True\<rparr> else m)
         (tbl_chat_messages b)"
  by (simp add: mark_messages_as_read_def read_again)

lemma mark_chat_chats:
  "tbl_chats (mark_messages_as_read (Some c) p b)
     = map (\<lambda>r. if c_id r = c then r\<lparr>c_unread_count := 0\<rparr> else r) (tbl_chats b)"
  by (simp add: mark_messages_as_read_def)

lemma mark_group_groups:
  "tbl_chat_groups (mark_messages_as_read None (Some g) b)
     = map (\<lambda>r. if c_id r = g then r\<lparr>c_unread_count := 0\<rparr> else r) (tbl_chat_groups b)"
  by (simp add: mark_messages_as_read_def)

lemma mark_chat_groups_same:
  "tbl_chat_groups (mark_messages_as_read (Some c) p b) = tbl_chat_groups b"
  by (simp add: mark_messages_as_read_def)

lemma reset_counter:
  fixes rows :: "Chat list"
  assumes "r \<in> set (map (\<lambda>r. if c_id r = k then r\<lparr>c_unread_count := 0\<rparr> else r) rows)"
    and "c_id r = k"
  shows "c_unread_count r = 0"
proof -
  from assms(1) obtain r0 where
    r: "r = (if c_id r0 = k then r0\<lparr>c_unread_count := 0\<rparr> else r0)"
    unfolding set_map by blast
  show ?thesis
  proof (cases "c_id r0 = k")
    case True
    with r show ?thesis by simp
  next
    case False
    with r assms(2) show ?thesis by simp
  qed
qed

lemma other_chat_rows_kept:
  fixes xs :: "Message list"
  shows "filter (\<lambda>m. m_chat_id m \<noteq> Some c)
           (map (\<lambda>m. if m_chat_id m = Some c then m\<lparr>m_is_read := True\<rparr> else m) xs)
         = filter (\<lambda>m. m_chat_id m \<noteq> Some c) xs"
  by (induction xs) simp_all

lemma mark_chat_idem:
  "mark_messages_as_read (Some c) p (mark_messages_as_read (Some c) p b)
     = mark_messages_as_read (Some c) p b"
proof -
  have m: "map (\<lambda>m. if m_chat_id m = Some c \<and> \<not> m_is_read m then m\<lparr>m_is_read := True\<rparr> else m)
             (map (\<lambda>m. if m_chat_id m = Some c \<and> \<not> m_is_read m
                        then m\<lparr>m_is_read := True\<rparr> else m) xs)
           = map (\<lambda>m. if m_chat_id m = Some c \<and> \<not> m_is_read m
                      then m\<lparr>m_is_read := True\<rparr> else m) xs"
    for xs :: "Message list" by (induction xs) simp_all
  have r: "map (\<lambda>r. if c_id r = c then r\<lparr>c_unread_count := 0\<rparr> else r)
             (map (\<lambda>r. if c_id r = c then r\<lparr>c_unread_count := 0\<rparr> else r) ys)
           = map (\<lambda>r. if c_id r = c then r\<lparr>c_unread_count := 0\<rparr> else r) ys"
    for ys :: "Chat list" by (induction ys) simp_all
  show ?thesis
    unfolding mark_messages_as_read_def by (simp add: m r del: map_map)
qed

lemma mark_group_idem:
  "mark_messages_as_read None (Some g) (mark_messages_as_read None (Some g) b)
     = mark_messages_as_read None (Some g) b"
proof -
  have m: "map (\<lambda>m. if m_group_id m = Some g \<and> \<not> m_is_read m then m\<lparr>m_is_read := True\<rparr> else m)
             (map (\<lambda>m. if m_group_id m = Some g \<and> \<not> m_is_read m
                        then m\<lparr>m_is_read := True\<rparr> else m) xs)
           = map (\<lambda>m. if m_group_id m = Some g \<and> \<not> m_is_read m
                      then m\<lparr>m_is_read := True\<rparr> else m) xs"
    for xs :: "Message list" by (induction xs) simp_all
  have r: "map (\<lambda>r. if c_id r = g then r\<lparr>c_unread_count := 0\<rparr> else r)
             (map (\<lambda>r. if c_id r = g then r\<lparr>c_unread_count := 0\<rparr> else r) ys)
           = map (\<lambda>r. if c_id r = g then r\<lparr>c_unread_count := 0\<rparr> else r) ys"
    for ys :: "Chat list" by (induction ys) simp_all
  show ?thesis
    unfolding mark_messages_as_read_def by (simp add: m r del: map_map)
qed

text \<open>
  C4 at its failing input. Viewer u1 opens conversation c1 of the example backend, which
  holds one unread message of u1 and one of u2. The call that fetchMessages makes marks
  both as read, the viewer's own message m1 included. The first definition of the
  function, run on the same backend for the same viewer, marks only the message of u2.
\<close>

theorem C4_marks_viewers_own_message:
  "auth_user ex_backend = Some ''u1''
   \<and> map (\<lambda>m. (m_id m, m_sender_id m, m_is_read m)) (tbl_chat_messages ex_backend)
       = [(''m1'', ''u1'', False), (''m2'', ''u2'', False), (''m3'', ''u1'', False)]
   \<and> map (\<lambda>m. (m_id m, m_sender_id m, m_is_read m))
         (tbl_chat_messages (fst (fetchMessages ''c1'' ex_backend initial_state)))
       = [(''m1'', ''u1'', True), (''m2'', ''u2'', True), (''m3'', ''u1'', False)]
   \<and> map (\<lambda>m. (m_id m, m_sender_id m, m_is_read m))
         (tbl_chat_messages (mark_messages_as_read_first (Some ''c1'') ex_backend))
       = [(''m1'', ''u1'', False), (''m2'', ''u2'', True), (''m3'', ''u1'', False)]"
  by code_simp

text \<open>
  What the function does in general: it sets the read flag of every message of the
  addressed conversation, whoever sent it, and changes no other message; it sets the
  stored unread counter of that conversation to zero; and a second call leaves the state
  of the first. This holds for the direct form and for the group form.
\<close>

lemma mark_messages_as_read_effect:
  "tbl_chat_messages (mark_messages_as_read (Some c) None b)
     = map (\<lambda>m. if m_chat_id m = Some c then m\<lparr>m_is_read := True\<rparr> else m)
         (tbl_chat_messages b)
   \<and> tbl_chat_messages (mark_messages_as_read None (Some g) b)
     = map (\<lambda>m. if m_group_id m = Some g then m\<lparr>m_is_read := True\<rparr> else m)
         (tbl_chat_messages b)
   \<and> (\<forall>r \<in> set (tbl_chats (mark_messages_as_read (Some c) None b)).
         c_id r = c \<longrightarrow> c_unread_count r = 0)
   \<and> (\<forall>r \<in> set (tbl_chat_groups (mark_messages_as_read None (Some g) b)).
         c_id r = g \<longrightarrow> c_unread_count r = 0)
   \<and> mark_messages_as_read (Some c) None (mark_messages_as_read (Some c) None b)
       = mark_messages_as_read (Some c) None b
   \<and> mark_messages_as_read None (Some g) (mark_messages_as_read None (Some g) b)
       = mark_messages_as_read None (Some g) b"
proof -
  have "\<forall>r \<in> set (tbl_chats (mark_messages_as_read (Some c) None b)).
          c_id r = c \<longrightarrow> c_unread_count r = 0"
    unfolding mark_chat_chats using reset_counter by blast
  moreover have "\<forall>r \<in> set (tbl_chat_groups (mark_messages_as_read None (Some g) b)).
          c_id r = g \<longrightarrow> c_unread_count r = 0"
    unfolding mark_group_groups using reset_counter by blast
  ultimately show ?thesis
    using mark_chat_messages [of c None b] mark_group_messages [of g b]
      mark_chat_idem [of c None b] mark_group_idem [of g b]
    by blast
qed

text \<open>
  C9. With both identifiers null the call changes nothing, also through the rpc. With
  both set, the direct branch runs and only it: every message of chat c is marked read
  and no other message changes, the unread counter of chat c is set to zero and no other
  chat row changes, and the group table is left as it is, so the messages and the
  counter of group g stay as they were; the result is that of the call with p_chat_id
  alone.
\<close>

theorem C9_mark_read_optional_ids:
  "mark_messages_as_read None None b = b
   \<and> rpc_mark_messages_as_read None None b = b
   \<and> tbl_chat_messages (mark_messages_as_read (Some c) (Some g) b)
       = map (\<lambda>m. if m_chat_id m = Some c then m\<lparr>m_is_read := True\<rparr> else m)
           (tbl_chat_messages b)
   \<and> tbl_chats (mark_messages_as_read (Some c) (Some g) b)
       = map (\<lambda>r. if c_id r = c then r\<lparr>c_unread_count := 0\<rparr> else r) (tbl_chats b)
   \<and> tbl_chat_groups (mark_messages_as_read (Some c) (Some g) b) = tbl_chat_groups b
   \<and> mark_messages_as_read (Some c) (Some g) b = mark_messages_as_read (Some c) None b"
proof -
  have "mark_messages_as_read None None b = b"
    by (simp add: mark_messages_as_read_def)
  moreover from this have "rpc_mark_messages_as_read None None b = b"
    by (simp add: rpc_mark_messages_as_read_def split: option.split)
  moreover have
    "mark_messages_as_read (Some c) (Some g) b = mark_messages_as_read (Some c) None b"
    by (simp add: mark_messages_as_read_def)
  ultimately show ?thesis
    using mark_chat_messages [of c "Some g" b] mark_chat_chats [of c "Some g" b]
      mark_chat_groups_same [of c "Some g" b]
    by blast
qed

text \<open>
  C9 at the example, with the ids of chat c1 and of group g1 both given: the two
  messages of c1 are marked and its counter is reset; message m3 of g1 stays unread and
  the counter of g1 stays 1.
\<close>

theorem C9_witness:
  "map (\<lambda>m. (m_id m, m_is_read m))
       (tbl_chat_messages (mark_messages_as_read (Some ''c1'') (Some ''g1'') ex_backend))
     = [(''m1'', True), (''m2'', True), (''m3'', False)]
   \<and> map (\<lambda>r. (c_id r, c_unread_count r))
       (tbl_chats (mark_messages_as_read (Some ''c1'') (Some ''g1'') ex_backend))
     = [(''c1'', 0), (''c2'', 0)]
   \<and> map (\<lambda>r. (c_id r, c_unread_count r))
       (tbl_chat_groups (mark_messages_as_read (Some ''c1'') (Some ''g1'') ex_backend))
     = [(''g1'', 1)]
   \<and> mark_messages_as_read None None ex_backend = ex_backend"
proof -
  have h1: "map (\<lambda>m. (m_id m, m_is_read m))
          (map (\<lambda>m. if m_chat_id m = Some ''c1'' then m\<lparr>m_is_read := True\<rparr> else m)
             (tbl_chat_messages ex_backend))
        = [(''m1'', True), (''m2'', True), (''m3'', False)]"
    by code_simp
  have h2: "map (\<lambda>r. (c_id r, c_unread_count r))
          (map (\<lambda>r. if c_id r = ''c1'' then r\<lparr>c_unread_count := 0\<rparr> else r)
             (tbl_chats ex_backend))
        = [(''c1'', 0), (''c2'', 0)]"
    by code_simp
  have h3: "map (\<lambda>r. (c_id r, c_unread_count r)) (tbl_chat_groups ex_backend)
        = [(''g1'', 1)]"
    by code_simp
  note t = C9_mark_read_optional_ids [of ex_backend "''c1''" "''g1''"]
  from t have n: "mark_messages_as_read None None ex_backend = ex_backend"
    by blast
  from t have a: "tbl_chat_messages (mark_messages_as_read (Some ''c1'') (Some ''g1'') ex_backend)
       = map (\<lambda>m. if m_chat_id m = Some ''c1'' then m\<lparr>m_is_read := True\<rparr> else m)
           (tbl_chat_messages ex_backend)"
    by blast
  from t have b: "tbl_chats (mark_messages_as_read (Some ''c1'') (Some ''g1'') ex_backend)
       = map (\<lambda>r. if c_id r = ''c1'' then r\<lparr>c_unread_count := 0\<rparr> else r) (tbl_chats ex_backend)"
    by blast
  from t have g: "tbl_chat_groups (mark_messages_as_read (Some ''c1'') (Some ''g1'') ex_backend)
       = tbl_chat_groups ex_backend"
    by blast
  show ?thesis
    unfolding a b g by (intro conjI h1 h2 h3 n)
qed

section \<open>Archive, mute and delete patch the directory after the backend has answered\<close>

lemma update_chats_outage: "outage b = Some e \<Longrightarrow> update_chats f chatId b = (Some e, b)"
  by (simp add: update_chats_def)

lemma update_chats_ok:
  "outage b = None \<Longrightarrow>
     update_chats f chatId b =
       (None, b\<lparr>tbl_chats := map (\<lambda>r. if c_id r = chatId then f r else r) (tbl_chats b)\<rparr>)"
  by (simp add: update_chats_def)

lemma toggles_on_error:
  assumes "outage b = Some e"
  shows "archiveChat chatId b s = (b, s\<lparr>error := Some e\<rparr>)"
    and "unarchiveChat chatId b s = (b, s\<lparr>error := Some e\<rparr>)"
    and "muteChat chatId b s = (b, s\<lparr>error := Some e\<rparr>)"
    and "unmuteChat chatId b s = (b, s\<lparr>error := Some e\<rparr>)"
    and "deleteChat chatId b s = (b, s\<lparr>error := Some e\<rparr>)"
  using assms
  by (simp_all add: archiveChat_def unarchiveChat_def muteChat_def unmuteChat_def
      deleteChat_def update_chats_outage delete_chats_def)

lemma toggles_on_success:
  assumes "outage b = None"
  shows "archiveChat chatId b s =
           (b\<lparr>tbl_chats := map (\<lambda>r. if c_id r = chatId then r\<lparr>c_is_archived := True\<rparr> else r)
                              (tbl_chats b)\<rparr>,
            s\<lparr>chats := map (\<lambda>x. if c_id x = chatId then x\<lparr>c_is_archived := True\<rparr> else x)
                          (chats s)\<rparr>)"
    and "unarchiveChat chatId b s =
           (b\<lparr>tbl_chats := map (\<lambda>r. if c_id r = chatId then r\<lparr>c_is_archived := False\<rparr> else r)
                              (tbl_chats b)\<rparr>,
            s\<lparr>chats := map (\<lambda>x. if c_id x = chatId then x\<lparr>c_is_archived := False\<rparr> else x)
                          (chats s)\<rparr>)"
    and "muteChat chatId b s =
           (b\<lparr>tbl_chats := map (\<lambda>r. if c_id r = chatId then r\<lparr>c_is_muted := True\<rparr> else r)
                              (tbl_chats b)\<rparr>,
            s\<lparr>chats := map (\<lambda>x. if c_id x = chatId then x\<lparr>c_is_muted := True\<rparr> else x)
                          (chats s)\<rparr>)"
    and "unmuteChat chatId b s =
           (b\<lparr>tbl_chats := map (\<lambda>r. if c_id r = chatId then r\<lparr>c_is_muted := False\<rparr> else r)
                              (tbl_chats b)\<rparr>,
            s\<lparr>chats := map (\<lambda>x. if c_id x = chatId then x\<lparr>c_is_muted := False\<rparr> else x)
                          (chats s)\<rparr>)"
    and "deleteChat chatId b s =
           (b\<lparr>tbl_chats := filter (\<lambda>r. c_id r \<noteq> chatId) (tbl_chats b),
              tbl_chat_messages :=
                filter (\<lambda>m. m_chat_id m \<noteq> Some chatId) (tbl_chat_messages b)\<rparr>,
            s\<lparr>chats := filter (\<lambda>x. c_id x \<noteq> chatId) (chats s)\<rparr>)"
  using assms
  by (simp_all add: archiveChat_def unarchiveChat_def muteChat_def unmuteChat_def
      deleteChat_def update_chats_ok delete_chats_def)

text \<open>
  C10. For archiveChat, unarchiveChat, muteChat, unmuteChat and deleteChat: when the
  backend call fails, the backend and the store are as before except for the store's
  error field, which holds the backend's error; when it succeeds, the store differs from
  before only in its directory list, in which the entries with the given id have the one
  flag set to the new value (for deleteChat: are removed) and every other entry is as it
  was, in the same order. The backend row has then been changed in the same way.
\<close>

theorem C10_directory_patched_after_backend:
  "(outage b = Some e \<longrightarrow>
      archiveChat chatId b s = (b, s\<lparr>error := Some e\<rparr>)
      \<and> unarchiveChat chatId b s = (b, s\<lparr>error := Some e\<rparr>)
      \<and> muteChat chatId b s = (b, s\<lparr>error := Some e\<rparr>)
      \<and> unmuteChat chatId b s = (b, s\<lparr>error := Some e\<rparr>)
      \<and> deleteChat chatId b s = (b, s\<lparr>error := Some e\<rparr>))
   \<and> (outage b = None \<longrightarrow>
      snd (archiveChat chatId b s) =
        s\<lparr>chats := map (\<lambda>x. if c_id x = chatId then x\<lparr>c_is_archived := True\<rparr> else x) (chats s)\<rparr>
      \<and> snd (unarchiveChat chatId b s) =
        s\<lparr>chats := map (\<lambda>x. if c_id x = chatId then x\<lparr>c_is_archived := False\<rparr> else x) (chats s)\<rparr>
      \<and> snd (muteChat chatId b s) =
        s\<lparr>chats := map (\<lambda>x. if c_id x = chatId then x\<lparr>c_is_muted := True\<rparr> else x) (chats s)\<rparr>
      \<and> snd (unmuteChat chatId b s) =
        s\<lparr>chats := map (\<lambda>x. if c_id x = chatId then x\<lparr>c_is_muted := False\<rparr> else x) (chats s)\<rparr>
      \<and> snd (deleteChat chatId b s) = s\<lparr>chats := filter (\<lambda>x. c_id x \<noteq> chatId) (chats s)\<rparr>
      \<and> tbl_chats (fst (archiveChat chatId b s)) =
        map (\<lambda>r. if c_id r = chatId then r\<lparr>c_is_archived := True\<rparr> else r) (tbl_chats b)
      \<and> tbl_chats (fst (unarchiveChat chatId b s)) =
        map (\<lambda>r. if c_id r = chatId then r\<lparr>c_is_archived := False\<rparr> else r) (tbl_chats b)
      \<and> tbl_chats (fst (muteChat chatId b s)) =
        map (\<lambda>r. if c_id r = chatId then r\<lparr>c_is_muted := True\<rparr> else r) (tbl_chats b)
      \<and> tbl_chats (fst (unmuteChat chatId b s)) =
        map (\<lambda>r. if c_id r = chatId then r\<lparr>c_is_muted := False\<rparr> else r) (tbl_chats b)
      \<and> tbl_chats (fst (deleteChat chatId b s)) = filter (\<lambda>r. c_id r \<noteq> chatId) (tbl_chats b))"
proof (intro conjI impI)
  assume "outage b = Some e"
  then show "archiveChat chatId b s = (b, s\<lparr>error := Some e\<rparr>)"
    and "unarchiveChat chatId b s = (b, s\<lparr>error := Some e\<rparr>)"
    and "muteChat chatId b s = (b, s\<lparr>error := Some e\<rparr>)"
    and "unmuteChat chatId b s = (b, s\<lparr>error := Some e\<rparr>)"
    and "deleteChat chatId b s = (b, s\<lparr>error := Some e\<rparr>)"
    by (rule toggles_on_error)+
next
  assume ok: "outage b = None"
  show "snd (archiveChat chatId b s) =
        s\<lparr>chats := map (\<lambda>x. if c_id x = chatId then x\<lparr>c_is_archived := True\<rparr> else x) (chats s)\<rparr>"
    and "snd (unarchiveChat chatId b s) =
        s\<lparr>chats := map (\<lambda>x. if c_id x = chatId then x\<lparr>c_is_archived := False\<rparr> else x) (chats s)\<rparr>"
    and "snd (muteChat chatId b s) =
        s\<lparr>chats := map (\<lambda>x. if c_id x = chatId then x\<lparr>c_is_muted := True\<rparr> else x) (chats s)\<rparr>"
    and "snd (unmuteChat chatId b s) =
        s\<lparr>chats := map (\<lambda>x. if c_id x = chatId then x\<lparr>c_is_muted := False\<rparr> else x) (chats s)\<rparr>"
    and "snd (deleteChat chatId b s) = s\<lparr>chats := filter (\<lambda>x. c_id x \<noteq> chatId) (chats s)\<rparr>"
    and "tbl_chats (fst (archiveChat chatId b s)) =
        map (\<lambda>r. if c_id r = chatId then r\<lparr>c_is_archived := True\<rparr> else r) (tbl_chats b)"
    and "tbl_chats (fst (unarchiveChat chatId b s)) =
        map (\<lambda>r. if c_id r = chatId then r\<lparr>c_is_archived := False\<rparr> else r) (tbl_chats b)"
    and "tbl_chats (fst (muteChat chatId b s)) =
        map (\<lambda>r. if c_id r = chatId then r\<lparr>c_is_muted := True\<rparr> else r) (tbl_chats b)"
    and "tbl_chats (fst (unmuteChat chatId b s)) =
        map (\<lambda>r. if c_id r = chatId then r\<lparr>c_is_muted := False\<rparr> else r) (tbl_chats b)"
    and "tbl_chats (fst (deleteChat chatId b s)) = filter (\<lambda>r. c_id r \<noteq> chatId) (tbl_chats b)"
    by (simp_all add: toggles_on_success [OF ok])
qed

text \<open>
  C10 at the example: with the directory loaded, muting c1 changes the muted flag of c1
  and nothing else; during an outage it only sets the error.
\<close>

theorem C10_witness:
  "map (\<lambda>x. (c_id x, c_is_muted x, c_is_archived x, c_unread_count x))
       (chats (snd (muteChat ''c1'' ex_backend (fetchChats ex_backend initial_state))))
     = [(''c1'', True, False, 2), (''g1'', False, False, 1), (''c2'', False, False, 0)]
   \<and> muteChat ''c1'' (ex_backend\<lparr>outage := Some ''offline''\<rparr>) initial_state
     = (ex_backend\<lparr>outage := Some ''offline''\<rparr>, initial_state\<lparr>error := Some ''offline''\<rparr>)"
proof -
  have ok: "outage ex_backend = None"
    by (simp add: ex_backend_def)
  have out: "outage (ex_backend\<lparr>outage := Some ''offline''\<rparr>) = Some ''offline''"
    by simp
  have "map (\<lambda>x. (c_id x, c_is_muted x, c_is_archived x, c_unread_count x))
          (map (\<lambda>x. if c_id x = ''c1'' then x\<lparr>c_is_muted := True\<rparr> else x)
             (chats (fetchChats ex_backend initial_state)))
        = [(''c1'', True, False, 2), (''g1'', False, False, 1), (''c2'', False, False, 0)]"
    by code_simp
  then show ?thesis
    using C10_directory_patched_after_backend
            [of ex_backend "''offline''" "''c1''" "fetchChats ex_backend initial_state"]
          C10_directory_patched_after_backend
            [of "ex_backend\<lparr>outage := Some ''offline''\<rparr>" "''offline''" "''c1''" initial_state]
          ok out
    by simp
qed


section \<open>What each operation leaves alone\<close>

lemma fetchChats_frame:
  "messages (fetchChats b s) = messages s"
  "currentChat (fetchChats b s) = currentChat s"
  "subscriptions (fetchChats b s) = subscriptions s"
  by (simp_all add: fetchChats_def split: option.split)

lemma update_chat_on_message_frame:
  "channels (update_chat_on_message new b) = channels b"
  "auth_user (update_chat_on_message new b) = auth_user b"
  "outage (update_chat_on_message new b) = outage b"
  "tbl_chat_messages (update_chat_on_message new b) = tbl_chat_messages b"
  by (simp_all add: update_chat_on_message_def split: option.split)

lemma mark_messages_as_read_frame:
  "channels (mark_messages_as_read p q b) = channels b"
  "auth_user (mark_messages_as_read p q b) = auth_user b"
  "outage (mark_messages_as_read p q b) = outage b"
  by (simp_all add: mark_messages_as_read_def split: option.split)

lemma rpc_mark_messages_as_read_frame:
  "channels (rpc_mark_messages_as_read p q b) = channels b"
  "auth_user (rpc_mark_messages_as_read p q b) = auth_user b"
  by (simp_all add: rpc_mark_messages_as_read_def mark_messages_as_read_frame
      split: option.split)

lemma insert_chat_message_frame:
  assumes "insert_chat_message new b = Inr b'"
  shows "channels b' = channels b" and "auth_user b' = auth_user b"
    and "tbl_chat_messages b' = tbl_chat_messages b @ [new]"
  using assms
  by (auto simp: insert_chat_message_def update_chat_on_message_frame
      split: option.splits if_splits)

lemma insert_chat_frame:
  assumes "insert_chat row b = Inr b'"
  shows "channels b' = channels b" and "auth_user b' = auth_user b"
    and "tbl_chats b' = tbl_chats b @ [row]"
  using assms by (auto simp: insert_chat_def split: option.splits if_splits)

lemma insert_chat_group_frame:
  "insert_chat_group row b = Inr b' \<Longrightarrow> channels b' = channels b"
  by (auto simp: insert_chat_group_def split: option.splits if_splits)

lemma insert_chat_group_members_frame:
  "insert_chat_group_members rows b = Inr b' \<Longrightarrow> channels b' = channels b"
  by (auto simp: insert_chat_group_members_def split: option.splits if_splits)

lemma update_chats_frame: "update_chats f chatId b = (r, b') \<Longrightarrow> channels b' = channels b"
  by (auto simp: update_chats_def split: option.splits)

lemma delete_chats_frame: "delete_chats chatId b = (r, b') \<Longrightarrow> channels b' = channels b"
  by (auto simp: delete_chats_def split: option.splits)

lemma startChat_frame:
  assumes "startChat new_id now doctorId b s = (res, b', s')"
  shows "channels b' = channels b \<and> subscriptions s' = subscriptions s"
  using assms
  by (auto simp: startChat_def fetchChats_frame insert_chat_frame
      split: option.splits sum.splits)

lemma createGroupChat_frame:
  assumes "createGroupChat new_id now name memberIds b s = (res, b', s')"
  shows "channels b' = channels b \<and> subscriptions s' = subscriptions s"
proof (cases "auth_user b")
  case None
  with assms show ?thesis
    by (auto simp: createGroupChat_def)
next
  case (Some uid)
  show ?thesis
  proof (cases "insert_chat_group (new_group_row new_id now name uid) b")
    case (Inl e)
    with assms Some show ?thesis
      by (auto simp: createGroupChat_def)
  next
    case (Inr b1)
    note g = insert_chat_group_frame [OF Inr]
    show ?thesis
    proof (cases "insert_chat_group_members
                    (map (\<lambda>memberId. (new_id, memberId,
                                       if memberId = uid then ''admin'' else ''member''))
                       (js_set (memberIds @ [uid]))) b1")
      case (Inl e)
      with assms Some \<open>insert_chat_group _ b = Inr b1\<close> g show ?thesis
        by (auto simp: createGroupChat_def)
    next
      case m: (Inr b2)
      from insert_chat_group_members_frame [OF m] g have "channels b2 = channels b"
        by simp
      with assms Some \<open>insert_chat_group _ b = Inr b1\<close> m show ?thesis
        by (auto simp: createGroupChat_def fetchChats_frame)
    qed
  qed
qed

lemma toggle_frame:
  assumes "archiveChat chatId b s = (b', s') \<or> unarchiveChat chatId b s = (b', s')
         \<or> muteChat chatId b s = (b', s') \<or> unmuteChat chatId b s = (b', s')
         \<or> deleteChat chatId b s = (b', s')"
  shows "channels b' = channels b \<and> subscriptions s' = subscriptions s"
  using assms
  by (auto simp: archiveChat_def unarchiveChat_def muteChat_def unmuteChat_def deleteChat_def
      dest: update_chats_frame delete_chats_frame split: option.splits prod.splits)

lemma fetchMessages_frame:
  assumes "fetchMessages chatId b s = (b', s')"
  shows "channels b' = channels b \<and> subscriptions s' = subscriptions s"
  using assms
  by (auto simp: fetchMessages_def Let_def fetchChats_frame rpc_mark_messages_as_read_frame
      split: option.splits sum.splits)

lemma sendMessage_frame:
  assumes "sendMessage new_id now content' b s = (b', s')"
  shows "channels b' = channels b \<and> subscriptions s' = subscriptions s"
  using assms
  by (auto simp: sendMessage_def Let_def fetchChats_frame insert_chat_message_frame
      split: option.splits sum.splits)

lemma on_insert_frame:
  "channels (fst (on_insert chatId message b s)) = channels b"
  "subscriptions (snd (on_insert chatId message b s)) = subscriptions s"
  "messages (snd (on_insert chatId message b s)) = message # messages s"
  by (simp_all add: on_insert_def Let_def fetchChats_frame rpc_mark_messages_as_read_frame
      split: option.split)

lemma deliver_fold_frame:
  "channels (fst (fold (\<lambda>(h, chatId) (b', s').
             if m_chat_id message = Some chatId then on_insert chatId message b' s'
             else (b', s')) hs (b, s))) = channels b
   \<and> subscriptions (snd (fold (\<lambda>(h, chatId) (b', s').
             if m_chat_id message = Some chatId then on_insert chatId message b' s'
             else (b', s')) hs (b, s))) = subscriptions s"
proof (induction hs arbitrary: b s)
  case Nil
  show ?case by simp
next
  case (Cons a hs)
  obtain h x where a: "a = (h, x)" by (cases a)
  show ?case
  proof (cases "m_chat_id message = Some x")
    case True
    obtain b1 s1 where o: "on_insert x message b s = (b1, s1)"
      by (cases "on_insert x message b s")
    have "channels b1 = channels b" and "subscriptions s1 = subscriptions s"
      using on_insert_frame(1,2) [of x message b s] o by simp_all
    with Cons.IH [of b1 s1] a True o show ?thesis by simp
  next
    case False
    with Cons.IH [of b s] a show ?thesis by simp
  qed
qed

lemma deliver_insert_frame:
  assumes "deliver_insert message b s = (b', s')"
  shows "channels b' = channels b \<and> subscriptions s' = subscriptions s"
  using deliver_fold_frame [of message "channels b" b s] assms
  by (simp add: deliver_insert_def)

section \<open>One live subscription\<close>

lemma fold_unsubscribe:
  "channels (fold unsubscribe hs b) = filter (\<lambda>(h, x). h \<notin> set hs) (channels b)
   \<and> next_channel (fold unsubscribe hs b) = next_channel b"
proof (induction hs arbitrary: b)
  case Nil
  show ?case by simp
next
  case (Cons a hs)
  have "filter (\<lambda>(h, x). h \<notin> set hs) (filter (\<lambda>(h', x). h' \<noteq> a) (channels b))
          = filter (\<lambda>(h, x). h \<notin> set (a # hs)) (channels b)"
    by (induction "channels b") (auto simp: filter_filter intro: filter_cong)
  with Cons [of "unsubscribe a b"] show ?case
    by (simp add: unsubscribe_def)
qed

lemma unsubscribe_all:
  assumes "map fst (channels b) = hs"
  shows "channels (fold unsubscribe hs b) = []"
proof -
  have "\<forall>c \<in> set (channels b). fst c \<in> set hs"
    using assms by force
  then have "filter (\<lambda>(h, x). h \<notin> set hs) (channels b) = []"
    by (auto simp: filter_empty_conv)
  then show ?thesis
    by (simp add: fold_unsubscribe)
qed

lemma reachable_subs_inv: "reachable b s \<Longrightarrow> subs_inv b s"
proof (induction rule: reachable.induct)
  case (r_init b)
  then show ?case by (simp add: subs_inv_def initial_state_def)
next
  case (r_backend b s b')
  then show ?case by (simp add: subs_inv_def)
next
  case (r_dismiss b s)
  then show ?case by (simp add: subs_inv_def)
next
  case (r_fetchChats b s)
  then show ?case by (simp add: subs_inv_def fetchChats_frame)
next
  case (r_startChat b s new_id now doctorId res b' s')
  with startChat_frame [OF r_startChat.hyps(2)] show ?case by (simp add: subs_inv_def)
next
  case (r_createGroupChat b s new_id now name memberIds res b' s')
  with createGroupChat_frame [OF r_createGroupChat.hyps(2)] show ?case
    by (simp add: subs_inv_def)
next
  case (r_archiveChat b s chatId b' s')
  with toggle_frame [of chatId b s b' s'] show ?case by (simp add: subs_inv_def)
next
  case (r_unarchiveChat b s chatId b' s')
  with toggle_frame [of chatId b s b' s'] show ?case by (simp add: subs_inv_def)
next
  case (r_muteChat b s chatId b' s')
  with toggle_frame [of chatId b s b' s'] show ?case by (simp add: subs_inv_def)
next
  case (r_unmuteChat b s chatId b' s')
  with toggle_frame [of chatId b s b' s'] show ?case by (simp add: subs_inv_def)
next
  case (r_deleteChat b s chatId b' s')
  with toggle_frame [of chatId b s b' s'] show ?case by (simp add: subs_inv_def)
next
  case (r_fetchMessages b s chatId b' s')
  with fetchMessages_frame [OF r_fetchMessages.hyps(2)] show ?case by (simp add: subs_inv_def)
next
  case (r_sendMessage b s new_id now content' b' s')
  with sendMessage_frame [OF r_sendMessage.hyps(2)] show ?case by (simp add: subs_inv_def)
next
  case (r_subscribeToMessages b s chatId b' s')
  then have "channels (fold unsubscribe (subscriptions s) b) = []"
    by (simp add: subs_inv_def unsubscribe_all)
  with r_subscribeToMessages.hyps(2) show ?case
    by (auto simp: subs_inv_def subscribeToMessages_def Let_def)
next
  case (r_deliver_insert b s message b' s')
  with deliver_insert_frame [OF r_deliver_insert.hyps(2)] show ?case by (simp add: subs_inv_def)
next
  case (r_cleanup b s b' s')
  then have "channels (fold unsubscribe (subscriptions s) b) = []"
    by (simp add: subs_inv_def unsubscribe_all)
  with r_cleanup.hyps(2) show ?case
    by (auto simp: subs_inv_def cleanup_def)
qed

lemma cleanup_twice:
  "cleanup (fst (cleanup b s)) (snd (cleanup b s)) = cleanup b s"
  by (simp add: cleanup_def)


lemma subscribeToMessages_result:
  assumes "map fst (channels b) = subscriptions s"
  shows "subscribeToMessages x b s =
           ((fold unsubscribe (subscriptions s) b)
              \<lparr>channels := [(next_channel b, x)], next_channel := Suc (next_channel b)\<rparr>,
            s\<lparr>subscriptions := [next_channel b]\<rparr>)"
  using unsubscribe_all [OF assms] fold_unsubscribe [of "subscriptions s" b]
  by (simp add: subscribeToMessages_def Let_def)

lemma deliver_insert_single:
  assumes "channels b = [(h, x)]"
  shows "deliver_insert m b s = (if m_chat_id m = Some x then on_insert x m b s else (b, s))"
  using assms by (simp add: deliver_insert_def)

text \<open>
  C7. In every state the client can reach, at most one channel is subscribed, and it is
  the one whose handle the store holds. From such a state subscribeToMessages x leaves
  exactly one subscribed channel, a new one with the filter for x, so that the event of a
  row of x runs the insert handler once; cleanup leaves none; and a cleanup that follows
  a cleanup changes nothing.
\<close>

theorem C7_one_subscription:
  assumes "reachable b s"
  shows "length (channels b) \<le> 1 \<and> map fst (channels b) = subscriptions s
       \<and> channels (fst (subscribeToMessages x b s)) = [(next_channel b, x)]
       \<and> subscriptions (snd (subscribeToMessages x b s)) = [next_channel b]
       \<and> (\<forall>m. m_chat_id m = Some x \<longrightarrow>
             deliver_insert m (fst (subscribeToMessages x b s)) (snd (subscribeToMessages x b s))
               = on_insert x m (fst (subscribeToMessages x b s)) (snd (subscribeToMessages x b s)))
       \<and> channels (fst (cleanup b s)) = [] \<and> subscriptions (snd (cleanup b s)) = []
       \<and> cleanup (fst (cleanup b s)) (snd (cleanup b s)) = cleanup b s"
proof -
  from reachable_subs_inv [OF assms]
  have inv: "map fst (channels b) = subscriptions s" and one: "length (subscriptions s) \<le> 1"
    by (simp_all add: subs_inv_def)
  from inv one have "length (channels b) \<le> 1"
    by (metis length_map)
  moreover note sub = subscribeToMessages_result [OF inv, of x]
  have ch: "channels (fst (subscribeToMessages x b s)) = [(next_channel b, x)]"
    by (simp add: sub)
  moreover have "subscriptions (snd (subscribeToMessages x b s)) = [next_channel b]"
    by (simp add: sub)
  moreover have "\<forall>m. m_chat_id m = Some x \<longrightarrow>
             deliver_insert m (fst (subscribeToMessages x b s)) (snd (subscribeToMessages x b s))
               = on_insert x m (fst (subscribeToMessages x b s)) (snd (subscribeToMessages x b s))"
    by (simp add: deliver_insert_single [OF ch])
  moreover have "channels (fst (cleanup b s)) = []"
    by (simp add: cleanup_def unsubscribe_all [OF inv])
  moreover have "subscriptions (snd (cleanup b s)) = []"
    by (simp add: cleanup_def)
  ultimately show ?thesis
    using inv cleanup_twice by blast
qed

text \<open>
  C7 at the example: the client subscribes to c2 and then to c1; only the channel for c1
  remains.
\<close>

theorem C7_witness:
  "channels (fst (subscribeToMessages ''c2'' ex_backend initial_state)) = [(0, ''c2'')]
   \<and> channels (fst (subscribeToMessages ''c1''
        (fst (subscribeToMessages ''c2'' ex_backend initial_state))
        (snd (subscribeToMessages ''c2'' ex_backend initial_state)))) = [(1, ''c1'')]"
proof -
  have "reachable ex_backend initial_state"
    by (rule r_init) (simp add: ex_backend_def)
  then have r: "reachable (fst (subscribeToMessages ''c2'' ex_backend initial_state))
                  (snd (subscribeToMessages ''c2'' ex_backend initial_state))"
    by (rule r_subscribeToMessages) simp
  have "channels (fst (subscribeToMessages ''c2'' ex_backend initial_state)) = [(0, ''c2'')]"
    and "next_channel (fst (subscribeToMessages ''c2'' ex_backend initial_state)) = 1"
    by code_simp+
  with C7_one_subscription [OF r, of "''c1''"] show ?thesis
    by simp
qed

section \<open>Operations without a signed-in viewer\<close>

text \<open>
  C8, as the claim states it, fails for the directory toggles and for deletion: they do
  not ask for the viewer. With nobody signed in and the directory loaded, archiveChat
  reports no error and marks c1 archived locally and in the table; deleteChat removes c1.
\<close>

theorem C8_counterexample:
  "auth_user (ex_backend\<lparr>auth_user := None\<rparr>) = None
   \<and> error (snd (archiveChat ''c1'' (ex_backend\<lparr>auth_user := None\<rparr>)
                   (fetchChats ex_backend initial_state))) = None
   \<and> map (\<lambda>x. (c_id x, c_is_archived x))
        (chats (snd (archiveChat ''c1'' (ex_backend\<lparr>auth_user := None\<rparr>)
                       (fetchChats ex_backend initial_state))))
       = [(''c1'', True), (''g1'', False), (''c2'', False)]
   \<and> map (\<lambda>x. (c_id x, c_is_archived x))
        (tbl_chats (fst (archiveChat ''c1'' (ex_backend\<lparr>auth_user := None\<rparr>)
                       (fetchChats ex_backend initial_state))))
       = [(''c1'', True), (''c2'', False)]
   \<and> error (snd (deleteChat ''c1'' (ex_backend\<lparr>auth_user := None\<rparr>)
                   (fetchChats ex_backend initial_state))) = None
   \<and> map c_id (tbl_chats (fst (deleteChat ''c1'' (ex_backend\<lparr>auth_user := None\<rparr>)
                   (fetchChats ex_backend initial_state)))) = [''c2'']"
  by code_simp

text \<open>
  C8 (amended). With no viewer resolved, fetchChats, startChat, createGroupChat and
  fetchMessages (which opens a conversation and marks it read) stop with the error
  'Not authenticated' and leave the backend as it is: startChat and createGroupChat
  throw it and record it in the store, fetchChats and fetchMessages record it. sendMessage
  leaves the backend as it is too and records 'Not authenticated' when a conversation is
  open, 'No active chat' otherwise.
\<close>

theorem C8_unauthenticated_operations:
  assumes "auth_user b = None"
  shows "fetchChats b s = s\<lparr>isLoading := False, error := Some ''Not authenticated''\<rparr>
       \<and> startChat new_id now doctorId b s
           = (Inl ''Not authenticated'', b, s\<lparr>error := Some ''Not authenticated''\<rparr>)
       \<and> createGroupChat new_id now name memberIds b s
           = (Inl ''Not authenticated'', b, s\<lparr>error := Some ''Not authenticated''\<rparr>)
       \<and> fetchMessages chatId b s
           = (b, s\<lparr>isLoading := False, error := Some ''Not authenticated''\<rparr>)
       \<and> sendMessage new_id now content' b s
           = (b, s\<lparr>error := Some (if currentChat s = None then ''No active chat''
                                   else ''Not authenticated'')\<rparr>)"
  using assms
  by (simp add: fetchChats_def startChat_def createGroupChat_def fetchMessages_def
      sendMessage_def split: option.split)

theorem C8_witness:
  "startChat ''c3'' 30 ''u4'' (ex_backend\<lparr>auth_user := None\<rparr>) initial_state
     = (Inl ''Not authenticated'', ex_backend\<lparr>auth_user := None\<rparr>,
        initial_state\<lparr>error := Some ''Not authenticated''\<rparr>)
   \<and> sendMessage ''m9'' 30 ''hi'' (ex_backend\<lparr>auth_user := None\<rparr>)
        (initial_state\<lparr>currentChat := Some ex_open_chat\<rparr>)
     = (ex_backend\<lparr>auth_user := None\<rparr>,
        initial_state\<lparr>currentChat := Some ex_open_chat, error := Some ''Not authenticated''\<rparr>)"
proof -
  have n: "auth_user (ex_backend\<lparr>auth_user := None\<rparr>) = None"
    by simp
  show ?thesis
    using C8_unauthenticated_operations
        [OF n, where s = initial_state and new_id = "''c3''" and now = 30
           and doctorId = "''u4''"]
      C8_unauthenticated_operations
        [OF n, where s = "initial_state\<lparr>currentChat := Some ex_open_chat\<rparr>"
           and new_id = "''m9''" and now = 30 and content' = "''hi''"]
    by simp
qed


section \<open>The insert handler and the timeline\<close>

lemma deliver_insert_none:
  assumes "channels b = [(h, x)]" and "m_chat_id m \<noteq> Some x"
  shows "deliver_insert m b s = (b, s)"
  using assms by (simp add: deliver_insert_single)

lemma on_insert_backend:
  "fst (on_insert x m b s) =
     (case auth_user b of
        Some uid \<Rightarrow> if m_sender_id m \<noteq> uid then rpc_mark_messages_as_read (Some x) None b else b
      | None \<Rightarrow> b)"
  by (simp add: on_insert_def Let_def)

lemma on_insert_marks:
  assumes "auth_user b = Some uid" and "m_sender_id m \<noteq> uid" and "outage b = None"
  shows "fst (on_insert x m b s) = mark_messages_as_read (Some x) None b"
  using assms by (simp add: on_insert_backend rpc_mark_messages_as_read_def)

lemma on_insert_no_mark:
  assumes "auth_user b = None \<or> auth_user b = Some (m_sender_id m) \<or> outage b \<noteq> None"
  shows "fst (on_insert x m b s) = b"
  using assms
  by (auto simp: on_insert_backend rpc_mark_messages_as_read_def split: option.splits)

text \<open>
  C6, as the claim states it, fails: the handler compares nothing. The client is
  subscribed to c1; the handler of that subscription is run on a row of conversation c2
  sent by u3. The row is put on the timeline, and since its sender is not the viewer the
  handler marks c1 as read: the stored unread counter of c1 drops from 2 to 0.
\<close>

theorem C6_counterexample:
  "m_chat_id ex_other_row = Some ''c2''
   \<and> channels (fst (subscribeToMessages ''c1'' ex_backend initial_state)) = [(0, ''c1'')]
   \<and> map (\<lambda>r. (c_id r, c_unread_count r))
        (tbl_chats (fst (subscribeToMessages ''c1'' ex_backend initial_state)))
       = [(''c1'', 2), (''c2'', 0)]
   \<and> messages (snd (on_insert ''c1'' ex_other_row
                      (fst (subscribeToMessages ''c1'' ex_backend initial_state))
                      (snd (subscribeToMessages ''c1'' ex_backend initial_state))))
       = [ex_other_row]
   \<and> map (\<lambda>r. (c_id r, c_unread_count r))
        (tbl_chats (fst (on_insert ''c1'' ex_other_row
                      (fst (subscribeToMessages ''c1'' ex_backend initial_state))
                      (snd (subscribeToMessages ''c1'' ex_backend initial_state)))))
       = [(''c1'', 0), (''c2'', 0)]"
  by code_simp

text \<open>
  C6 (amended). While the client is subscribed to conversation x only, the feed hands the
  handler no row whose chat_id differs from x: such an insert changes neither the backend
  nor the store. That is the work of the subscription's filter alone. The handler itself
  compares nothing: it puts every row it is given on the timeline, whatever the row's
  conversation, and if a viewer is signed in, the row's sender is someone else and the
  backend answers, it marks conversation x as read: every message of x gets the read
  flag and the stored unread counter of x is set to zero. Otherwise it leaves the backend
  as it is.
\<close>

theorem C6_filter_keeps_other_conversations_out:
  "(channels b = [(h, x)] \<and> m_chat_id m \<noteq> Some x \<longrightarrow> deliver_insert m b s = (b, s))
   \<and> messages (snd (on_insert x m b s)) = m # messages s
   \<and> (auth_user b = Some uid \<and> m_sender_id m \<noteq> uid \<and> outage b = None \<longrightarrow>
        tbl_chat_messages (fst (on_insert x m b s))
          = map (\<lambda>m'. if m_chat_id m' = Some x then m'\<lparr>m_is_read := True\<rparr> else m')
              (tbl_chat_messages b)
        \<and> tbl_chats (fst (on_insert x m b s))
          = map (\<lambda>r. if c_id r = x then r\<lparr>c_unread_count := 0\<rparr> else r) (tbl_chats b))
   \<and> (auth_user b = None \<or> auth_user b = Some (m_sender_id m) \<or> outage b \<noteq> None \<longrightarrow>
        fst (on_insert x m b s) = b)"
proof (intro conjI impI)
  assume "channels b = [(h, x)] \<and> m_chat_id m \<noteq> Some x"
  then show "deliver_insert m b s = (b, s)"
    using deliver_insert_none by blast
next
  show "messages (snd (on_insert x m b s)) = m # messages s"
    by (rule on_insert_frame(3))
next
  assume a: "auth_user b = Some uid \<and> m_sender_id m \<noteq> uid \<and> outage b = None"
  then have e: "fst (on_insert x m b s) = mark_messages_as_read (Some x) None b"
    using on_insert_marks by blast
  show "tbl_chat_messages (fst (on_insert x m b s))
          = map (\<lambda>m'. if m_chat_id m' = Some x then m'\<lparr>m_is_read := True\<rparr> else m')
              (tbl_chat_messages b)"
    unfolding e by (rule mark_chat_messages)
  show "tbl_chats (fst (on_insert x m b s))
          = map (\<lambda>r. if c_id r = x then r\<lparr>c_unread_count := 0\<rparr> else r) (tbl_chats b)"
    unfolding e by (rule mark_chat_chats)
next
  assume "auth_user b = None \<or> auth_user b = Some (m_sender_id m) \<or> outage b \<noteq> None"
  then show "fst (on_insert x m b s) = b"
    by (rule on_insert_no_mark)
qed

text \<open>
  C6 at the example, subscribed to c1: the insert of a row of c2 is not delivered; the
  handler run on that row marks the messages of c1 and resets the counter of c1; run on
  a row the viewer sent, it leaves the backend as it is.
\<close>

theorem C6_witness:
  "deliver_insert ex_other_row (fst (subscribeToMessages ''c1'' ex_backend initial_state))
       (snd (subscribeToMessages ''c1'' ex_backend initial_state))
     = subscribeToMessages ''c1'' ex_backend initial_state
   \<and> map (\<lambda>m. (m_id m, m_is_read m))
       (tbl_chat_messages (fst (on_insert ''c1'' ex_other_row
          (fst (subscribeToMessages ''c1'' ex_backend initial_state))
          (snd (subscribeToMessages ''c1'' ex_backend initial_state)))))
     = [(''m1'', True), (''m2'', True), (''m3'', False)]
   \<and> map (\<lambda>r. (c_id r, c_unread_count r))
       (tbl_chats (fst (on_insert ''c1'' ex_other_row
          (fst (subscribeToMessages ''c1'' ex_backend initial_state))
          (snd (subscribeToMessages ''c1'' ex_backend initial_state)))))
     = [(''c1'', 0), (''c2'', 0)]
   \<and> fst (on_insert ''c1'' ex_m1
          (fst (subscribeToMessages ''c1'' ex_backend initial_state))
          (snd (subscribeToMessages ''c1'' ex_backend initial_state)))
     = fst (subscribeToMessages ''c1'' ex_backend initial_state)"
proof -
  let ?b = "fst (subscribeToMessages ''c1'' ex_backend initial_state)"
  let ?s = "snd (subscribeToMessages ''c1'' ex_backend initial_state)"
  have ch: "channels ?b = [(0, ''c1'')]" and o: "m_chat_id ex_other_row \<noteq> Some ''c1''"
    and u: "auth_user ?b = Some ''u1''" and n: "m_sender_id ex_other_row \<noteq> ''u1''"
    and out: "outage ?b = None" and own: "auth_user ?b = Some (m_sender_id ex_m1)"
    by code_simp+
  have m: "map (\<lambda>m. (m_id m, m_is_read m))
             (map (\<lambda>m'. if m_chat_id m' = Some ''c1'' then m'\<lparr>m_is_read := True\<rparr> else m')
                (tbl_chat_messages ?b))
           = [(''m1'', True), (''m2'', True), (''m3'', False)]"
    by code_simp
  have c: "map (\<lambda>r. (c_id r, c_unread_count r))
             (map (\<lambda>r. if c_id r = ''c1'' then r\<lparr>c_unread_count := 0\<rparr> else r) (tbl_chats ?b))
           = [(''c1'', 0), (''c2'', 0)]"
    by code_simp
  note t1 = C6_filter_keeps_other_conversations_out
              [of ?b 0 "''c1''" ex_other_row ?s "''u1''"]
  note t2 = C6_filter_keeps_other_conversations_out [of ?b 0 "''c1''" ex_m1 ?s "''u1''"]
  from t1 ch o have "deliver_insert ex_other_row ?b ?s = (?b, ?s)"
    by blast
  moreover from t1 u n out have
    "tbl_chat_messages (fst (on_insert ''c1'' ex_other_row ?b ?s))
       = map (\<lambda>m'. if m_chat_id m' = Some ''c1'' then m'\<lparr>m_is_read := True\<rparr> else m')
           (tbl_chat_messages ?b)"
    and "tbl_chats (fst (on_insert ''c1'' ex_other_row ?b ?s))
       = map (\<lambda>r. if c_id r = ''c1'' then r\<lparr>c_unread_count := 0\<rparr> else r) (tbl_chats ?b)"
    by blast+
  moreover from t2 own have "fst (on_insert ''c1'' ex_m1 ?b ?s) = ?b"
    by blast
  ultimately show ?thesis
    using m c by simp
qed

lemma sendMessage_success:
  assumes "currentChat s = Some cc" and "auth_user b = Some uid"
    and "insert_chat_message (new_message new_id now cc uid body) b = Inr b'"
  shows "sendMessage new_id now body b s
           = (b', fetchChats b' (s\<lparr>messages := new_message new_id now cc uid body # messages s\<rparr>))"
  using assms by (simp add: sendMessage_def Let_def)

lemma new_message_id: "m_id (new_message new_id now cc uid body) = new_id"
  by (simp add: new_message_def)

text \<open>
  A conversation opened by fetchMessages is stored as the backend returned it, without
  the \<^verbatim>\<open>type\<close> property that sendMessage reads; the row that sendMessage then inserts
  carries neither chat_id nor group_id.
\<close>

lemma sendMessage_after_fetchMessages_example:
  "map (\<lambda>m. (m_id m, m_chat_id m, m_group_id m))
     (messages (snd (sendMessage ''m9'' 20 ''hi''
        (fst (fetchMessages ''c1'' ex_backend initial_state))
        (snd (fetchMessages ''c1'' ex_backend initial_state)))))
   = [(''m9'', None, None), (''m2'', Some ''c1'', None), (''m1'', Some ''c1'', None)]"
  by code_simp

text \<open>
  The handler does not look for a row it is given on the timeline: run on the row of an
  insert that sendMessage has just put there, it would put it in front again.
\<close>

lemma handler_prepends_sent_row_again:
  assumes "currentChat s = Some cc" and "auth_user b = Some uid"
    and "insert_chat_message (new_message new_id now cc uid body) b = Inr b'"
  shows "messages (snd (sendMessage new_id now body b s))
           = new_message new_id now cc uid body # messages s
       \<and> copies new_id (messages (snd (sendMessage new_id now body b s)))
           = Suc (copies new_id (messages s))
       \<and> copies new_id
           (messages (snd (on_insert x (new_message new_id now cc uid body)
                             (fst (sendMessage new_id now body b s))
                             (snd (sendMessage new_id now body b s)))))
           = Suc (Suc (copies new_id (messages s)))"
  unfolding sendMessage_success [OF assms]
  by (simp add: on_insert_frame fetchChats_frame copies_def new_message_id)


section \<open>A sent message stands on the timeline once\<close>


lemma rows_untyped_same_tables:
  "tbl_chats b' = tbl_chats b \<Longrightarrow> tbl_chat_groups b' = tbl_chat_groups b
     \<Longrightarrow> rows_untyped b \<Longrightarrow> rows_untyped b'"
  by (simp add: rows_untyped_def)































lemma reachable_untyped_reachable: "reachable_untyped b s \<Longrightarrow> reachable b s"
  by (induction rule: reachable_untyped.induct) (auto intro: reachable.intros)







section \<open>Unread counts in the directory\<close>

lemma set_combine_chats: "set (combine_chats ds gs) = set ds \<union> set gs"
proof -
  have "set_mset (mset (combine_chats ds gs)) = set_mset (mset ds + mset gs)"
    by (simp only: combine_chats_mset)
  then show ?thesis by simp
qed

lemma processedDirectChat_type: "c_type (processedDirectChat uid p) = Some direct"
  by (cases p) (simp add: processedDirectChat_def)

lemma select_group_chats_rows:
  assumes "g' \<in> set (select_group_chats b)"
  shows "\<exists>g \<in> set (tbl_chat_groups b). c_id g' = c_id g \<and> c_unread_count g' = c_unread_count g"
proof (cases "outage b")
  case None
  with assms obtain g where "g \<in> set (order_desc c_last_message_at (tbl_chat_groups b))"
    and "g' = g\<lparr>c_members := members_of (c_id g) b\<rparr>"
    by (auto simp: select_group_chats_def)
  then show ?thesis
    by (auto simp: order_desc_def)
next
  case (Some e)
  with assms show ?thesis
    by (simp add: select_group_chats_def)
qed

lemma fetchChats_group_entry:
  assumes "auth_user b = Some uid" and "e \<in> set (chats (fetchChats b s))"
    and "c_type e = Some group"
  shows "\<exists>g \<in> set (tbl_chat_groups b). c_id e = c_id g \<and> c_unread_count e = c_unread_count g"
proof -
  from assms(2) have "e \<in> set (map (processedDirectChat uid) (select_direct_chats uid b))
      \<or> e \<in> set (map processedGroupChat (select_group_chats b))"
    unfolding chats_fetchChats [OF assms(1)] set_combine_chats by blast
  then show ?thesis
  proof
    assume "e \<in> set (map (processedDirectChat uid) (select_direct_chats uid b))"
    then obtain p where "e = processedDirectChat uid p"
      by auto
    with assms(3) show ?thesis
      by (simp add: processedDirectChat_type)
  next
    assume "e \<in> set (map processedGroupChat (select_group_chats b))"
    then obtain g' where g': "g' \<in> set (select_group_chats b)" and e: "e = processedGroupChat g'"
      by auto
    from select_group_chats_rows [OF g'] e show ?thesis
      by (auto simp: processedGroupChat_def)
  qed
qed

text \<open>The insert trigger and mark_messages_as_read keep the group counters in step.\<close>

lemma group_unread_append:
  "group_unread g (b\<lparr>tbl_chat_messages := tbl_chat_messages b @ [new]\<rparr>)
     = group_unread g b
       + (if m_chat_id new = None \<and> m_group_id new = Some g \<and> \<not> m_is_read new then 1 else 0)"
  by (simp add: group_unread_def)

lemma group_unread_cong:
  "tbl_chat_messages b' = tbl_chat_messages b \<Longrightarrow> group_unread g b' = group_unread g b"
  by (simp add: group_unread_def)

lemma insert_keeps_group_counters:
  assumes inv: "group_counters_in_step b" and unread: "\<not> m_is_read new"
    and ins: "insert_chat_message new b = Inr b'"
  shows "group_counters_in_step b'"
proof -
  let ?b1 = "b\<lparr>tbl_chat_messages := tbl_chat_messages b @ [new]\<rparr>"
  from ins have b': "b' = update_chat_on_message new ?b1"
    by (auto simp: insert_chat_message_def split: option.splits if_splits)
  have msgs: "tbl_chat_messages b' = tbl_chat_messages ?b1"
    by (simp add: b' update_chat_on_message_frame)
  have u: "group_unread g b' = group_unread g b
       + (if m_chat_id new = None \<and> m_group_id new = Some g \<and> \<not> m_is_read new then 1 else 0)"
    for g
    using group_unread_cong [OF msgs, of g] by (simp add: group_unread_append)
  show ?thesis
  proof (cases "m_chat_id new")
    case (Some c)
    then have "tbl_chat_groups b' = tbl_chat_groups b"
      by (simp add: b' update_chat_on_message_def)
    with inv u Some show ?thesis
      by (simp add: group_counters_in_step_def)
  next
    case None
    show ?thesis
    proof (cases "m_group_id new")
      case n: None
      with None have "tbl_chat_groups b' = tbl_chat_groups b"
        by (simp add: b' update_chat_on_message_def)
      with inv u None n show ?thesis
        by (simp add: group_counters_in_step_def)
    next
      case (Some g0)
      with None have gs: "tbl_chat_groups b' =
          map (\<lambda>r. if c_id r = g0
                    then r\<lparr>c_last_message_at := m_created_at new,
                           c_unread_count := c_unread_count r + 1\<rparr>
                    else r) (tbl_chat_groups b)"
        by (simp add: b' update_chat_on_message_def)
      show ?thesis
        unfolding group_counters_in_step_def
      proof
        fix r assume "r \<in> set (tbl_chat_groups b')"
        then obtain r0 where r0: "r0 \<in> set (tbl_chat_groups b)"
          and r: "r = (if c_id r0 = g0
                       then r0\<lparr>c_last_message_at := m_created_at new,
                               c_unread_count := c_unread_count r0 + 1\<rparr>
                       else r0)"
          unfolding gs set_map by blast
        from inv r0 have c: "c_unread_count r0 = int (group_unread (c_id r0) b)"
          by (simp add: group_counters_in_step_def)
        show "c_unread_count r = int (group_unread (c_id r) b')"
        proof (cases "c_id r0 = g0")
          case True
          with r c u [of g0] None Some unread show ?thesis by simp
        next
          case False
          with r c u [of "c_id r0"] None Some show ?thesis by auto
        qed
      qed
    qed
  qed
qed

lemma count_unread_after_chat_mark:
  fixes xs :: "Message list"
  shows "length (filter (\<lambda>m. m_chat_id m = None \<and> m_group_id m = Some g \<and> \<not> m_is_read m)
           (map (\<lambda>m. if m_chat_id m = Some c then m\<lparr>m_is_read := True\<rparr> else m) xs))
       = length (filter (\<lambda>m. m_chat_id m = None \<and> m_group_id m = Some g \<and> \<not> m_is_read m) xs)"
  by (induction xs) simp_all

lemma count_unread_after_group_mark_same:
  fixes xs :: "Message list"
  shows "filter (\<lambda>m. m_chat_id m = None \<and> m_group_id m = Some g \<and> \<not> m_is_read m)
           (map (\<lambda>m. if m_group_id m = Some g then m\<lparr>m_is_read := True\<rparr> else m) xs) = []"
  by (induction xs) simp_all

lemma count_unread_after_group_mark_other:
  fixes xs :: "Message list"
  assumes "g \<noteq> g0"
  shows "length (filter (\<lambda>m. m_chat_id m = None \<and> m_group_id m = Some g \<and> \<not> m_is_read m)
           (map (\<lambda>m. if m_group_id m = Some g0 then m\<lparr>m_is_read := True\<rparr> else m) xs))
       = length (filter (\<lambda>m. m_chat_id m = None \<and> m_group_id m = Some g \<and> \<not> m_is_read m) xs)"
  using assms by (induction xs) simp_all

lemma count_unread_after_group_mark:
  fixes xs :: "Message list"
  shows "length (filter (\<lambda>m. m_chat_id m = None \<and> m_group_id m = Some g \<and> \<not> m_is_read m)
           (map (\<lambda>m. if m_group_id m = Some g0 then m\<lparr>m_is_read := True\<rparr> else m) xs))
       = (if g = g0 then 0
          else length (filter (\<lambda>m. m_chat_id m = None \<and> m_group_id m = Some g \<and> \<not> m_is_read m) xs))"
proof (cases "g = g0")
  case True
  with count_unread_after_group_mark_same [of g0 xs] show ?thesis
    by simp
next
  case False
  with count_unread_after_group_mark_other [OF False, of xs] show ?thesis
    by simp
qed

lemma mark_keeps_group_counters:
  assumes inv: "group_counters_in_step b"
  shows "group_counters_in_step (mark_messages_as_read p q b)"
proof (cases p)
  case (Some c)
  have "group_unread g (mark_messages_as_read (Some c) q b) = group_unread g b" for g
    unfolding group_unread_def mark_chat_messages by (rule count_unread_after_chat_mark)
  with inv Some show ?thesis
    by (simp add: group_counters_in_step_def mark_chat_groups_same)
next
  case None
  show ?thesis
  proof (cases q)
    case n: None
    with None inv show ?thesis
      by (simp add: mark_messages_as_read_def)
  next
    case (Some g0)
    have u: "group_unread g (mark_messages_as_read None (Some g0) b)
               = (if g = g0 then 0 else group_unread g b)" for g
      unfolding group_unread_def mark_group_messages by (rule count_unread_after_group_mark)
    show ?thesis
      unfolding group_counters_in_step_def None Some
    proof
      fix r assume "r \<in> set (tbl_chat_groups (mark_messages_as_read None (Some g0) b))"
      then obtain r0 where r0: "r0 \<in> set (tbl_chat_groups b)"
        and r: "r = (if c_id r0 = g0 then r0\<lparr>c_unread_count := 0\<rparr> else r0)"
        unfolding mark_group_groups set_map by blast
      from inv r0 have c: "c_unread_count r0 = int (group_unread (c_id r0) b)"
        by (simp add: group_counters_in_step_def)
      show "c_unread_count r = int (group_unread (c_id r) (mark_messages_as_read None (Some g0) b))"
      proof (cases "c_id r0 = g0")
        case True
        with r u [of g0] show ?thesis by simp
      next
        case False
        with r c u [of "c_id r0"] show ?thesis by simp
      qed
    qed
  qed
qed

text \<open>
  C2, as the claim states it, fails. Viewer u1 lists the example backend. Group g1 holds
  one message, unread and sent by u1 itself: no unread message of another sender, yet the
  entry shows 1. Direct chat c1 holds one unread message of u2 and one of u1: the entry
  shows 2.
\<close>

theorem C2_counterexample:
  "auth_user ex_backend = Some ''u1''
   \<and> map (\<lambda>e. (c_id e, c_type e, c_unread_count e)) (chats (fetchChats ex_backend initial_state))
       = [(''c1'', Some direct, 2), (''g1'', Some group, 1), (''c2'', Some direct, 0)]
   \<and> length (filter (\<lambda>m. m_group_id m = Some ''g1'' \<and> m_sender_id m \<noteq> ''u1'' \<and> \<not> m_is_read m)
               (tbl_chat_messages ex_backend)) = 0
   \<and> length (filter (\<lambda>m. m_chat_id m = Some ''c1'' \<and> m_sender_id m \<noteq> ''u1'' \<and> \<not> m_is_read m)
               (tbl_chat_messages ex_backend)) = 1"
  by code_simp

text \<open>
  C2 (amended). For a group conversation the listing does not count messages: the entry
  carries the unread counter stored with the group. The insert trigger adds one to it
  for every message inserted into the group and mark_messages_as_read sets it to zero,
  whoever the sender and whoever the viewer; so, whenever the stored counters are in step
  with the message table, the unread count of a group entry is the number of the group's
  messages whose read flag is false, the viewer's own included.
\<close>

theorem C2_group_unread_is_stored_counter:
  assumes "auth_user b = Some uid" and "group_counters_in_step b"
  shows "\<forall>e \<in> set (chats (fetchChats b s)). c_type e = Some group \<longrightarrow>
           (\<exists>g \<in> set (tbl_chat_groups b). c_id g = c_id e \<and> c_unread_count e = c_unread_count g)
           \<and> c_unread_count e
               = int (length (filter (\<lambda>m. m_chat_id m = None \<and> m_group_id m = Some (c_id e)
                                           \<and> \<not> m_is_read m) (tbl_chat_messages b)))"
proof (intro ballI impI)
  fix e assume "e \<in> set (chats (fetchChats b s))" and "c_type e = Some group"
  with fetchChats_group_entry [OF assms(1)] obtain g where g: "g \<in> set (tbl_chat_groups b)"
    and i: "c_id e = c_id g" and c: "c_unread_count e = c_unread_count g"
    by blast
  from assms(2) g have "c_unread_count g = int (group_unread (c_id g) b)"
    by (simp add: group_counters_in_step_def)
  with g i c show "(\<exists>g \<in> set (tbl_chat_groups b). c_id g = c_id e \<and> c_unread_count e = c_unread_count g)
           \<and> c_unread_count e
               = int (length (filter (\<lambda>m. m_chat_id m = None \<and> m_group_id m = Some (c_id e)
                                           \<and> \<not> m_is_read m) (tbl_chat_messages b)))"
    by (auto simp: group_unread_def)
qed

theorem C2_witness:
  "map (\<lambda>e. (c_id e, c_unread_count e))
       (filter (\<lambda>e. c_type e = Some group) (chats (fetchChats ex_backend initial_state)))
     = [(''g1'', 1)]
   \<and> length (filter (\<lambda>m. m_chat_id m = None \<and> m_group_id m = Some ''g1'' \<and> \<not> m_is_read m)
               (tbl_chat_messages ex_backend)) = 1"
proof -
  have u: "auth_user ex_backend = Some ''u1''"
    by (simp add: ex_backend_def)
  have k: "group_counters_in_step ex_backend"
    by code_simp
  have l: "map (\<lambda>e. (c_id e, c_unread_count e))
       (filter (\<lambda>e. c_type e = Some group) (chats (fetchChats ex_backend initial_state)))
     = [(''g1'', 1)]"
    by code_simp
  define e where "e = chats (fetchChats ex_backend initial_state) ! 1"
  have e: "e \<in> set (chats (fetchChats ex_backend initial_state))"
    unfolding e_def by (rule nth_mem) code_simp
  have t: "c_type e = Some group" and i: "c_id e = ''g1''" and c: "c_unread_count e = 1"
    unfolding e_def by code_simp+
  from C2_group_unread_is_stored_counter [OF u k, of initial_state] e t i c
  have "length (filter (\<lambda>m. m_chat_id m = None \<and> m_group_id m = Some ''g1'' \<and> \<not> m_is_read m)
               (tbl_chat_messages ex_backend)) = 1"
    by auto
  with l show ?thesis
    by simp
qed


section \<open>Starting a direct conversation\<close>

lemma existing_chats_distinct_ids:
  assumes "uid \<noteq> doctorId"
  shows "existing_chats uid doctorId b
           = filter (\<lambda>c. c_user_id c = Some uid \<and> c_doctor_id c = Some doctorId) (tbl_chats b)"
  unfolding existing_chats_def using assms by (intro filter_cong) auto

lemma insert_chat_no_pair:
  assumes "insert_chat row b = Inr b'"
  shows "filter (\<lambda>c. c_user_id c = c_user_id row \<and> c_doctor_id c = c_doctor_id row) (tbl_chats b)
           = []"
proof -
  from assms have "(c_user_id row, c_doctor_id row)
      \<notin> set (map (\<lambda>r. (c_user_id r, c_doctor_id r)) (tbl_chats b))"
    by (auto simp: insert_chat_def split: option.splits if_splits)
  then have "\<forall>c \<in> set (tbl_chats b).
      \<not> (c_user_id c = c_user_id row \<and> c_doctor_id c = c_doctor_id row)"
    by (metis (mono_tags, lifting) image_eqI list.set_map)
  then show ?thesis
    by (simp add: filter_empty_conv)
qed

lemma insert_chat_outage:
  "insert_chat row b = Inr b' \<Longrightarrow> outage b' = None"
  by (auto simp: insert_chat_def split: option.splits if_splits)

text \<open>
  The half of C3 that holds: a viewer who calls startChat again with the same peer gets
  the id of the first call, and neither the backend nor the store changes.
\<close>

lemma startChat_again_same_order:
  assumes user: "auth_user b = Some uid" and ne: "uid \<noteq> doctorId"
    and first: "startChat new_id now doctorId b s = (Inr i, b', s')"
  shows "startChat new_id' now' doctorId b' s' = (Inr i, b', s')"
proof (cases "outage b")
  case (Some e)
  with user first show ?thesis
    by (simp add: startChat_def)
next
  case None
  show ?thesis
  proof (cases "single (existing_chats uid doctorId b)")
    case (Some existingChat)
    with user None first have "b' = b" and "s' = s" and "i = c_id existingChat"
      by (simp_all add: startChat_def)
    with user None Some show ?thesis
      by (simp add: startChat_def)
  next
    case n: None
    let ?row = "new_chat_row new_id now uid doctorId"
    from user None n first obtain ins: "insert_chat ?row b = Inr b'" and i: "i = new_id"
      by (auto simp: startChat_def split: sum.splits)
    have row: "c_user_id ?row = Some uid" "c_doctor_id ?row = Some doctorId" "c_id ?row = new_id"
      by (simp_all add: new_chat_row_def)
    from insert_chat_no_pair [OF ins] have "existing_chats uid doctorId b = []"
      by (simp add: existing_chats_distinct_ids [OF ne] row)
    then have "existing_chats uid doctorId b' = [?row]"
      using insert_chat_frame(3) [OF ins]
      by (simp add: existing_chats_distinct_ids [OF ne] row)
    then have "single (existing_chats uid doctorId b') = Some ?row"
      by (simp add: single_def)
    with user insert_chat_frame(2) [OF ins] insert_chat_outage [OF ins] i row show ?thesis
      by (simp add: startChat_def)
  qed
qed

text \<open>
  C3 at its failing input. Viewer u1 starts a chat with u4 and gets c3; calling again,
  u1 gets c3 and nothing changes. Then u4 signs in and starts a chat with u1: the lookup
  asks for a row whose doctor_id is u1, finds none, and a second row for the same two
  people is inserted, with the new id c4.
\<close>

theorem C3_swapped_roles_second_chat:
  "(let (r1, b1, s1) = startChat ''c3'' 30 ''u4'' ex_backend initial_state;
        (r2, b2, s2) = startChat ''c5'' 31 ''u4'' b1 s1;
        (r3, b3, s3) = startChat ''c4'' 32 ''u1'' (b1\<lparr>auth_user := Some ''u4''\<rparr>) initial_state
    in r1 = Inr ''c3'' \<and> r2 = Inr ''c3'' \<and> b2 = b1 \<and> r3 = Inr ''c4''
       \<and> map (\<lambda>r. (c_id r, c_user_id r, c_doctor_id r)) (tbl_chats b3)
           = [(''c1'', Some ''u1'', Some ''u2''), (''c2'', Some ''u3'', Some ''u1''),
              (''c3'', Some ''u1'', Some ''u4''), (''c4'', Some ''u4'', Some ''u1'')])"
  by code_simp

end
